theory Spec2Isabelle
  imports Main
begin

section \<open>The MasterFisher of SUSHI (src/utils/MasterFisher.ts)\<close>

text \<open>
  The MasterFisher resolves one identifier against three catalogs: the package being
  exported (\<open>pkg\<close>), the tank of FSH source definitions (\<open>tank\<close>) and the external
  FHIR definitions (\<open>fhir\<close>). The three catalogs are collaborators whose code is not part
  of the file; they enter the model as records of lookup functions, one field per method
  that MasterFisher.ts calls on them. A lookup that yields \<open>undefined\<close> is \<open>None\<close>.
  Each lookup builds its answer afresh, so a lookup is a function of its arguments.
\<close>

subsection \<open>Data\<close>

text \<open>
  An optional property of a JavaScript object is in one of three states: the key is missing,
  the key is there with the value \<open>undefined\<close>, or the key holds a value. Reading the
  property gives \<open>undefined\<close> in the first two, but lodash's \<open>isEqual\<close> tells
  them apart, and the assignment \<open>metadata.sdType = undefined\<close> turns the first into
  the second. With the three states kept, HOL equality of two records is \<open>isEqual\<close>.
\<close>

datatype 'a field = Missing | Undefined | Value 'a

fun read :: "'a field \<Rightarrow> 'a option" where
  "read Missing = None"
| "read Undefined = None"
| "read (Value v) = Some v"

fun assign :: "'a option \<Rightarrow> 'a field" where
  "assign None = Undefined"
| "assign (Some v) = Value v"

datatype InstanceUsage = Example | Definition | Inline

datatype Type = Profile | Extension | ValueSet | CodeSystem | Instance | Invariant
  | RuleSet | Mapping | Resource | Type | Logical

record Metadata =
  id :: string
  name :: string
  sdType :: "string field"
  resourceType :: "string field"
  url :: "string field"
  parent :: "string field"
  instanceUsage :: "InstanceUsage field"

text \<open>The FHIR JSON of a definition; the MasterFisher reads its \<open>fhirVersion\<close> only.\<close>

record FhirJson =
  fhirVersion :: "string option"
  json :: string

record SourceInfo =
  src_file :: string
  src_line :: nat

text \<open>
  A definition of the tank. \<open>FshInstance\<close> stands for the class \<open>Instance\<close>, the only
  one the MasterFisher tests for; every other FSH entity is an \<open>FshEntity\<close>.
\<close>

datatype FshDefinition =
    is_FshInstance: FshInstance (def_name: string) (def_id: string) (sourceInfo: SourceInfo) (instanceOf: string)
  | FshEntity (def_name: string) (def_id: string) (sourceInfo: SourceInfo)

record Package =
  pkg_fishForFHIR :: "string \<Rightarrow> Type list \<Rightarrow> FhirJson option"
  pkg_fishForMetadata :: "string \<Rightarrow> Type list \<Rightarrow> Metadata option"
  pkg_fishForMetadatas :: "string \<Rightarrow> Type list \<Rightarrow> Metadata list"
  canonical :: string

record FSHTank =
  resolveAlias :: "string \<Rightarrow> string option"
  fish :: "string \<Rightarrow> Type list \<Rightarrow> FshDefinition option"
  fishAll :: "string \<Rightarrow> Type list \<Rightarrow> FshDefinition list"
  tank_fishForMetadata :: "string \<Rightarrow> Type list \<Rightarrow> Metadata option"
  tank_fishForMetadatas :: "string \<Rightarrow> Type list \<Rightarrow> Metadata list"
  config_fhirVersion :: "string list option"

record FHIRDefinitions =
  fishForPredefinedResource :: "string \<Rightarrow> Type list \<Rightarrow> FhirJson option"
  fishForPredefinedResourceMetadata :: "string \<Rightarrow> Type list \<Rightarrow> Metadata option"
  fishForPredefinedResourceMetadatas :: "string \<Rightarrow> Type list \<Rightarrow> Metadata list"
  fhir_fishForFHIR :: "string \<Rightarrow> Type list \<Rightarrow> FhirJson option"
  fhir_fishForMetadata :: "string \<Rightarrow> Type list \<Rightarrow> Metadata option"
  fhir_fishForMetadatas :: "string \<Rightarrow> Type list \<Rightarrow> Metadata list"

text \<open>
  The interface \<open>Fishable\<close>, with the class of the object kept as the constructor, so that
  \<open>fishable instanceof FSHTank\<close> is a test on the constructor.
\<close>

datatype Fishable = Pkg Package | Tank FSHTank | Fhir FHIRDefinitions

fun isTank :: "Fishable \<Rightarrow> bool" where
  "isTank (Tank t) = True"
| "isTank (Pkg p) = False"
| "isTank (Fhir d) = False"

fun fishable_fishForMetadata :: "Fishable \<Rightarrow> string \<Rightarrow> Type list \<Rightarrow> Metadata option" where
  "fishable_fishForMetadata (Pkg p) = pkg_fishForMetadata p"
| "fishable_fishForMetadata (Tank t) = tank_fishForMetadata t"
| "fishable_fishForMetadata (Fhir d) = fhir_fishForMetadata d"

fun fishable_fishForMetadatas :: "Fishable \<Rightarrow> string \<Rightarrow> Type list \<Rightarrow> Metadata list" where
  "fishable_fishForMetadatas (Pkg p) = pkg_fishForMetadatas p"
| "fishable_fishForMetadatas (Tank t) = tank_fishForMetadatas t"
| "fishable_fishForMetadatas (Fhir d) = fhir_fishForMetadatas d"

record MasterFisher =
  tank :: "FSHTank option"
  fhir :: "FHIRDefinitions option"
  pkg :: "Package option"
  defaultFHIRVersion :: "string option"

text \<open>What \<open>logger.error(message, sourceInfo)\<close> hands to the logger.\<close>

record Diagnostic =
  message :: string
  location :: "SourceInfo option"

text \<open>
  Dereferencing \<open>undefined\<close> throws a \<open>TypeError\<close>. An operation yields the exception
  or its value, together with the diagnostics logged on the way, in order.
\<close>

datatype Exn = TypeError

type_synonym 'a outcome = "(Exn + 'a) \<times> Diagnostic list"

subsection \<open>The constructor\<close>

definition new_MasterFisher ::
  "FSHTank option \<Rightarrow> FHIRDefinitions option \<Rightarrow> Package option \<Rightarrow> MasterFisher" where
  "new_MasterFisher t d p =
     \<lparr>tank = t, fhir = d, pkg = p,
      defaultFHIRVersion =
        (case (case d of None \<Rightarrow> None
               | Some fd \<Rightarrow> (case fhir_fishForFHIR fd ''StructureDefinition'' [] of
                              None \<Rightarrow> None
                            | Some sd \<Rightarrow> fhirVersion sd)) of
           Some v \<Rightarrow> Some v
         | None \<Rightarrow> (case t of None \<Rightarrow> None
                    | Some tk \<Rightarrow> (case config_fhirVersion tk of
                                   None \<Rightarrow> None
                                 | Some [] \<Rightarrow> None
                                 | Some (v # vs) \<Rightarrow> Some v)))\<rparr>"

subsection \<open>Helpers of the language\<close>

text \<open>\<open>this.tank?.resolveAlias(item) ?? item\<close>\<close>

definition resolve :: "MasterFisher \<Rightarrow> string \<Rightarrow> string" where
  "resolve mf item =
     (case tank mf of
        None \<Rightarrow> item
      | Some tk \<Rightarrow> (case resolveAlias tk item of None \<Rightarrow> item | Some a \<Rightarrow> a))"

text \<open>\<open>[this.pkg, this.tank, this.fhir].filter(f => f != null)\<close>\<close>

definition fishables_of :: "MasterFisher \<Rightarrow> Fishable list" where
  "fishables_of mf =
     (case pkg mf of None \<Rightarrow> [] | Some p \<Rightarrow> [Pkg p]) @
     (case tank mf of None \<Rightarrow> [] | Some t \<Rightarrow> [Tank t]) @
     (case fhir mf of None \<Rightarrow> [] | Some d \<Rightarrow> [Fhir d])"

text \<open>\<open>!s\<close> for a string property: true for \<open>undefined\<close> and for the empty string.\<close>

fun falsy :: "string field \<Rightarrow> bool" where
  "falsy Missing = True"
| "falsy Undefined = True"
| "falsy (Value v) = (v = [])"

text \<open>A string property inside a template literal.\<close>

fun template :: "string field \<Rightarrow> string" where
  "template (Value v) = v"
| "template Missing = ''undefined''"
| "template Undefined = ''undefined''"

text \<open>\<open>Array.prototype.join\<close> on strings.\<close>

fun join :: "string \<Rightarrow> string list \<Rightarrow> string" where
  "join sep [] = []"
| "join sep [x] = x"
| "join sep (x # y # ys) = x @ sep @ join sep (y # ys)"

text \<open>
  lodash's \<open>uniqWith(array, comparator)\<close>: the values are visited in order, and a value
  is kept unless the comparator matches it with a value kept before.
\<close>

fun uniqWith_loop :: "('a \<Rightarrow> 'a \<Rightarrow> bool) \<Rightarrow> 'a list \<Rightarrow> 'a list \<Rightarrow> 'a list" where
  "uniqWith_loop cmp [] result = result"
| "uniqWith_loop cmp (v # vs) result =
     (if list_ex (\<lambda>seen. cmp seen v) result then uniqWith_loop cmp vs result
      else uniqWith_loop cmp vs (result @ [v]))"

definition uniqWith :: "'a list \<Rightarrow> ('a \<Rightarrow> 'a \<Rightarrow> bool) \<Rightarrow> 'a list" where
  "uniqWith array cmp = uniqWith_loop cmp array []"

definition isEqual :: "Metadata \<Rightarrow> Metadata \<Rightarrow> bool" where
  "isEqual a b = (a = b)"

subsection \<open>fishForFHIR\<close>

definition fishForFHIR :: "MasterFisher \<Rightarrow> string \<Rightarrow> Type list \<Rightarrow> Exn + FhirJson option" where
  "fishForFHIR mf item0 types =
     (let item = resolve mf item0 in
      case fhir mf of
        None \<Rightarrow> Inl TypeError
      | Some fd \<Rightarrow>
          (case fishForPredefinedResource fd item types of
             Some result \<Rightarrow> Inr (Some result)
           | None \<Rightarrow>
               (case (case pkg mf of None \<Rightarrow> None | Some p \<Rightarrow> pkg_fishForFHIR p item types) of
                  Some result \<Rightarrow> Inr (Some result)
                | None \<Rightarrow>
                    if (case tank mf of None \<Rightarrow> False | Some tk \<Rightarrow> fish tk item types \<noteq> None)
                    then Inr None
                    else Inr (fhir_fishForFHIR fd item types))))"

subsection \<open>findSdType\<close>

text \<open>
  One pass of the inner \<open>for\<close> loop over the fishables: the first fishable that knows the
  parent decides. Either its record repeats a url of the history, which is logged and ends
  \<open>findSdType\<close>, or the record is pushed on the history; with no match, \<open>parentResult\<close>
  stays \<open>undefined\<close>.
\<close>

datatype ParentStep = Circular Diagnostic | Pushed Metadata | NoParentResult

definition circular_message :: "MasterFisher \<Rightarrow> Metadata list \<Rightarrow> Metadata \<Rightarrow> string" where
  "circular_message mf history parentResult =
     (let message = ''Circular dependency detected on parent relationships: '' @
                    join '' < '' (map name (history @ [parentResult]));
          fhirMeta = (case fhir mf of
                        None \<Rightarrow> None
                      | Some fd \<Rightarrow> (case fhir_fishForMetadata fd (name parentResult) [] of
                                     Some m \<Rightarrow> Some m
                                   | None \<Rightarrow> fhir_fishForMetadata fd (id parentResult) []))
      in case fhirMeta of
           Some m \<Rightarrow> message @ [CHR 0x0A] @ ''  If the parent '' @ name parentResult @
                     '' is intended to refer to the FHIR resource, use its URL: '' @
                     template (url m)
         | None \<Rightarrow> message)"

text \<open>\<open>fishable instanceof FSHTank ? fishable.fish(parent)?.sourceInfo : undefined\<close>\<close>

fun errorLocation :: "Fishable \<Rightarrow> string \<Rightarrow> SourceInfo option" where
  "errorLocation (Tank t) parent' =
     (case fish t parent' [] of None \<Rightarrow> None | Some d \<Rightarrow> Some (sourceInfo d))"
| "errorLocation (Pkg p) parent' = None"
| "errorLocation (Fhir d) parent' = None"

fun findParent ::
  "MasterFisher \<Rightarrow> string \<Rightarrow> Type list \<Rightarrow> Metadata list \<Rightarrow> Fishable list \<Rightarrow> ParentStep" where
  "findParent mf parent' types history [] = NoParentResult"
| "findParent mf parent' types history (fishable # rest) =
     (case fishable_fishForMetadata fishable parent' types of
        None \<Rightarrow> findParent mf parent' types history rest
      | Some parentResult \<Rightarrow>
          if list_ex (\<lambda>md. read (url md) = read (url parentResult)) history
          then Circular \<lparr>message = circular_message mf history parentResult,
                         location = errorLocation fishable parent'\<rparr>
          else Pushed parentResult)"

text \<open>
  The \<open>while\<close> loop, with the loop variables as arguments. Nothing bounds the number of
  rounds when the catalogs keep answering with new urls, so the loop is a partial function:
  \<open>None\<close> is a walk that never ends.
\<close>

partial_function (option) findSdType_while ::
  "MasterFisher \<Rightarrow> Type list \<Rightarrow> Fishable list \<Rightarrow> Metadata list \<Rightarrow> string option \<Rightarrow>
   string option \<Rightarrow> (string option \<times> Diagnostic list) option" where
  "findSdType_while mf types fishables history sdType' parent' =
     (case (sdType', parent') of
        (None, Some p) \<Rightarrow>
          (case findParent mf (resolve mf p) types history fishables of
             Circular d \<Rightarrow> Some (None, [d])
           | Pushed parentResult \<Rightarrow>
               findSdType_while mf types fishables (history @ [parentResult])
                 (read (sdType parentResult)) (read (parent parentResult))
           | NoParentResult \<Rightarrow> findSdType_while mf types fishables history None None)
      | _ \<Rightarrow> Some (sdType', []))"

declare findSdType_while.simps [code]

definition findSdType ::
  "MasterFisher \<Rightarrow> Metadata \<Rightarrow> Type list \<Rightarrow> Fishable list \<Rightarrow>
   (string option \<times> Diagnostic list) option" where
  "findSdType mf meta types fishables =
     findSdType_while mf types fishables [meta] (read (sdType meta)) (read (parent meta))"

subsection \<open>fishForMetadata and fixMetadata\<close>

text \<open>
  \<open>fixMetadata\<close> calls \<open>fishForMetadata\<close> on the \<open>instanceOf\<close> of an Instance, and
  \<open>fishForMetadata\<close> calls \<open>fixMetadata\<close> on what it finds: when the tank answers with
  Instances that are instances of each other, the calls nest without end. The first
  argument bounds the nesting: each nested call of \<open>fishForMetadata\<close> takes one unit, and
  \<open>None\<close> is a computation that needs more (or whose parent walk never ends).

  The \<open>for\<close> loop of \<open>fishForMetadata\<close> returns at the first fishable with a result;
  \<open>firstResult\<close> is that search, and gives the fishable with the result.
\<close>

fun firstResult :: "Fishable list \<Rightarrow> string \<Rightarrow> Type list \<Rightarrow> (Metadata \<times> Fishable) option" where
  "firstResult [] item types = None"
| "firstResult (fishable # rest) item types =
     (case fishable_fishForMetadata fishable item types of
        Some result \<Rightarrow> Some (result, fishable)
      | None \<Rightarrow> firstResult rest item types)"

text \<open>
  Lines 133 to 137 of \<open>fixMetadata\<close>: the url of a record that has none, unless the
  record is an inline Instance. \<open>this.pkg.config\<close> throws when there is no package.
\<close>

definition addUrl :: "MasterFisher \<Rightarrow> Metadata \<Rightarrow> Exn + Metadata" where
  "addUrl mf metadata =
     (if falsy (url metadata) \<and> read (instanceUsage metadata) \<noteq> Some Inline then
        (case pkg mf of
           None \<Rightarrow> Inl TypeError
         | Some p \<Rightarrow>
             Inr (metadata\<lparr>url := Value (canonical p @ ''/'' @ template (resourceType metadata) @
                                          ''/'' @ id metadata)\<rparr>))
      else Inr metadata)"

text \<open>
  The parameter \<open>metadata\<close> is never \<open>undefined\<close> at a call of \<open>fixMetadata\<close>
  (both callers pass a result they have tested or an element of a result array), so the
  outer \<open>if (metadata)\<close> is taken.
\<close>

fun fishForMetadata ::
  "nat \<Rightarrow> MasterFisher \<Rightarrow> string \<Rightarrow> Type list \<Rightarrow> Metadata option outcome option"
and fixMetadata ::
  "nat \<Rightarrow> MasterFisher \<Rightarrow> Metadata \<Rightarrow> string \<Rightarrow> Type list \<Rightarrow> Fishable \<Rightarrow> Fishable list \<Rightarrow>
   Metadata outcome option" where
  "fishForMetadata depth mf item0 types =
     (let item = resolve mf item0 in
      case fhir mf of
        None \<Rightarrow> Some (Inl TypeError, [])
      | Some fd \<Rightarrow>
          (case fishForPredefinedResourceMetadata fd item types of
             Some result \<Rightarrow> Some (Inr (Some result), [])
           | None \<Rightarrow>
               (case firstResult (fishables_of mf) item types of
                  None \<Rightarrow> Some (Inr None, [])
                | Some (result, fishable) \<Rightarrow>
                    (case fixMetadata depth mf result item types fishable (fishables_of mf) of
                       None \<Rightarrow> None
                     | Some (Inl e, log) \<Rightarrow> Some (Inl e, log)
                     | Some (Inr fixed, log) \<Rightarrow> Some (Inr (Some fixed), log)))))"
| "fixMetadata depth mf metadata item types fishable fishables =
     (case (case fishable of
              Tank tk \<Rightarrow>
                (case findSdType mf metadata types fishables of
                   None \<Rightarrow> None
                 | Some (sd, log) \<Rightarrow>
                     (let metadata1 = metadata\<lparr>sdType := assign sd\<rparr> in
                      if falsy (resourceType metadata1) then
                        (case find (\<lambda>e. def_id e = id metadata1 \<and> def_name e = name metadata1)
                                (fishAll tk item types) of
                           Some (FshInstance n i si instOf) \<Rightarrow>
                             (case depth of
                                0 \<Rightarrow> None
                              | Suc depth' \<Rightarrow>
                                  (case fishForMetadata depth' mf instOf [] of
                                     None \<Rightarrow> None
                                   | Some (Inl e, log') \<Rightarrow> Some (Inl e, log @ log')
                                   | Some (Inr r, log') \<Rightarrow>
                                       Some (Inr (metadata1\<lparr>resourceType :=
                                                    assign (case r of
                                                              None \<Rightarrow> None
                                                            | Some m \<Rightarrow> read (sdType m))\<rparr>),
                                             log @ log')))
                         | _ \<Rightarrow> Some (Inr metadata1, log))
                      else Some (Inr metadata1, log)))
            | _ \<Rightarrow> Some (Inr metadata, [])) of
        None \<Rightarrow> None
      | Some (Inl e, log) \<Rightarrow> Some (Inl e, log)
      | Some (Inr metadata2, log) \<Rightarrow> Some (addUrl mf metadata2, log))"

declare fishForMetadata.simps [simp del] fixMetadata.simps [simp del]

subsection \<open>fishForMetadatas\<close>

text \<open>
  \<open>results.map(result => this.fixMetadata(...))\<close> for one fishable: the records are fixed
  from left to right, and an exception ends the whole call.
\<close>

fun mapFix ::
  "nat \<Rightarrow> MasterFisher \<Rightarrow> string \<Rightarrow> Type list \<Rightarrow> Fishable \<Rightarrow> Fishable list \<Rightarrow> Metadata list \<Rightarrow>
   Metadata list outcome option" where
  "mapFix depth mf item types fishable fishables [] = Some (Inr [], [])"
| "mapFix depth mf item types fishable fishables (result # results) =
     (case fixMetadata depth mf result item types fishable fishables of
        None \<Rightarrow> None
      | Some (Inl e, log) \<Rightarrow> Some (Inl e, log)
      | Some (Inr fixed, log) \<Rightarrow>
          (case mapFix depth mf item types fishable fishables results of
             None \<Rightarrow> None
           | Some (Inl e, log') \<Rightarrow> Some (Inl e, log @ log')
           | Some (Inr fixeds, log') \<Rightarrow> Some (Inr (fixed # fixeds), log @ log')))"

text \<open>The \<open>for\<close> loop over the fishables; the result is what was pushed on \<open>metadatas\<close>.\<close>

fun gather ::
  "nat \<Rightarrow> MasterFisher \<Rightarrow> string \<Rightarrow> Type list \<Rightarrow> Fishable list \<Rightarrow> Fishable list \<Rightarrow>
   Metadata list outcome option" where
  "gather depth mf item types fishables [] = Some (Inr [], [])"
| "gather depth mf item types fishables (fishable # rest) =
     (case mapFix depth mf item types fishable fishables
             (fishable_fishForMetadatas fishable item types) of
        None \<Rightarrow> None
      | Some (Inl e, log) \<Rightarrow> Some (Inl e, log)
      | Some (Inr results, log) \<Rightarrow>
          (case gather depth mf item types fishables rest of
             None \<Rightarrow> None
           | Some (Inl e, log') \<Rightarrow> Some (Inl e, log @ log')
           | Some (Inr pushed, log') \<Rightarrow> Some (Inr (results @ pushed), log @ log')))"

definition fishForMetadatas ::
  "nat \<Rightarrow> MasterFisher \<Rightarrow> string \<Rightarrow> Type list \<Rightarrow> Metadata list outcome option" where
  "fishForMetadatas depth mf item0 types =
     (let item = resolve mf item0 in
      case fhir mf of
        None \<Rightarrow> Some (Inl TypeError, [])
      | Some fd \<Rightarrow>
          (let metadatas = fishForPredefinedResourceMetadatas fd item types;
               fishables = fishables_of mf
           in case gather depth mf item types fishables fishables of
                None \<Rightarrow> None
              | Some (Inl e, log) \<Rightarrow> Some (Inl e, log)
              | Some (Inr pushed, log) \<Rightarrow> Some (Inr (uniqWith (metadatas @ pushed) isEqual), log)))"

subsection \<open>First occurrences\<close>

text \<open>
  What the specification asks of the result of a multi-result query: of the gathered
  records, each is kept where it comes first, and every later copy of it is dropped.
\<close>

primrec firstOccurrences :: "'a list \<Rightarrow> 'a list" where
  "firstOccurrences [] = []"
| "firstOccurrences (x # xs) = x # filter (\<lambda>y. y \<noteq> x) (firstOccurrences xs)"

text \<open>
  The duplicates of the specification: two records are duplicates when every field of the
  one equals the same field of the other, a field being what reading it gives.
\<close>

definition duplicates :: "Metadata \<Rightarrow> Metadata \<Rightarrow> bool" where
  "duplicates a b =
     (id a = id b \<and> name a = name b \<and> read (sdType a) = read (sdType b) \<and>
      read (resourceType a) = read (resourceType b) \<and> read (url a) = read (url b) \<and>
      read (parent a) = read (parent b) \<and> read (instanceUsage a) = read (instanceUsage b))"

subsection \<open>Catalogs for concrete runs\<close>

text \<open>
  A small tank, a small set of FHIR definitions and a small package, on which the
  operations are run in the examples below. The tank holds two profiles that are each
  other's parent (\<open>A1\<close>, \<open>B1\<close>), a chain that ends in the FHIR resource Observation
  through an alias (\<open>A2\<close>, \<open>B2\<close>), the same chain without urls (\<open>A3\<close>, \<open>B3\<close>),
  two more profiles that are each other's parent, the first without url (\<open>A4\<close>,
  \<open>B4\<close>), a profile with the name of a FHIR definition (\<open>Vitals\<close>), two Instances
  of Patient and a value set \<open>VS\<close>. The package holds its own \<open>Observation\<close> and
  \<open>Base\<close>, a profile \<open>Draft\<close> without url and sdType, and the value set \<open>VS\<close> with
  the record that the tank has for it; \<open>Base\<close> is also a predefined resource of the FHIR
  definitions. \<open>ex_mf\<close> is the MasterFisher of the three, \<open>ex_mf_no_pkg\<close> the
  MasterFisher of the tank and the FHIR definitions, constructed without package.
\<close>

definition blank :: Metadata where
  "blank = \<lparr>id = [], name = [], sdType = Missing, resourceType = Missing, url = Missing,
            parent = Missing, instanceUsage = Missing\<rparr>"

definition profile :: "string \<Rightarrow> string field \<Rightarrow> string \<Rightarrow> Metadata" where
  "profile n u p = blank\<lparr>id := n, name := n, resourceType := Value ''StructureDefinition'',
                         url := u, parent := Value p\<rparr>"

definition T_A1 :: Metadata where "T_A1 = profile ''A1'' (Value ''http://example.org/A1'') ''B1''"
definition T_B1 :: Metadata where "T_B1 = profile ''B1'' (Value ''http://example.org/B1'') ''A1''"
definition T_A2 :: Metadata where "T_A2 = profile ''A2'' (Value ''http://example.org/A2'') ''B2''"
definition T_B2 :: Metadata where "T_B2 = profile ''B2'' (Value ''http://example.org/B2'') ''OBS''"
definition T_A3 :: Metadata where "T_A3 = profile ''A3'' Missing ''B3''"
definition T_B3 :: Metadata where "T_B3 = profile ''B3'' Missing ''Observation''"
definition T_A4 :: Metadata where "T_A4 = profile ''A4'' Missing ''B4''"
definition T_B4 :: Metadata where "T_B4 = profile ''B4'' (Value ''http://example.org/B4'') ''A4''"
definition T_Vitals :: Metadata where
  "T_Vitals = profile ''Vitals'' (Value ''http://example.org/Vitals'') ''Observation''"

definition T_Example :: Metadata where
  "T_Example = blank\<lparr>id := ''123'', name := ''PatientExample'', resourceType := Value ''Patient'',
                      instanceUsage := Value Example\<rparr>"

definition T_Inline :: Metadata where
  "T_Inline = blank\<lparr>id := ''456'', name := ''InlinePatient'', resourceType := Value ''Patient'',
                     instanceUsage := Value Inline\<rparr>"

definition resource :: "string \<Rightarrow> string \<Rightarrow> Metadata" where
  "resource n u = blank\<lparr>id := n, name := n, sdType := Value n,
                        resourceType := Value ''StructureDefinition'', url := Value u\<rparr>"

definition F_Observation :: Metadata where
  "F_Observation = resource ''Observation'' ''http://hl7.org/fhir/Observation''"
definition F_Vitals :: Metadata where
  "F_Vitals = (resource ''Vitals'' ''http://hl7.org/fhir/Vitals'')\<lparr>sdType := Value ''Observation''\<rparr>"
definition F_Base :: Metadata where
  "F_Base = resource ''Base'' ''http://hl7.org/fhir/Base''"
definition P_Observation :: Metadata where
  "P_Observation = resource ''Observation'' ''http://example.org/Observation''"
definition P_Base :: Metadata where
  "P_Base = resource ''Base'' ''http://example.org/Base''"
definition VS :: Metadata where
  "VS = blank\<lparr>id := ''VS'', name := ''VS'', resourceType := Value ''ValueSet'',
               url := Value ''http://example.org/ValueSet/VS''\<rparr>"
definition P_Draft :: Metadata where
  "P_Draft = profile ''Draft'' Missing ''Observation''"

definition fhirJson :: "string \<Rightarrow> FhirJson" where
  "fhirJson s = \<lparr>fhirVersion = Some ''4.0.1'', json = s\<rparr>"

definition here :: SourceInfo where
  "here = \<lparr>src_file = ''profiles.fsh'', src_line = 1\<rparr>"

definition ex_tank :: FSHTank where
  "ex_tank =
     \<lparr>resolveAlias = (\<lambda>i. if i = ''OBS'' then Some ''Observation'' else None),
      fish = (\<lambda>i ts. if i \<in> set [''A1'', ''B1'', ''A2'', ''B2'', ''A3'', ''B3'', ''A4'', ''B4'', ''Vitals'', ''VS'']
                      then Some (FshEntity i i here)
                      else if i = ''PatientExample'' then Some (FshInstance i ''123'' here ''Patient'')
                      else if i = ''InlinePatient'' then Some (FshInstance i ''456'' here ''Patient'')
                      else None),
      fishAll = (\<lambda>i ts. if i \<in> set [''A1'', ''B1'', ''A2'', ''B2'', ''A3'', ''B3'', ''A4'', ''B4'', ''Vitals'', ''VS'']
                         then [FshEntity i i here]
                         else if i = ''PatientExample'' then [FshInstance i ''123'' here ''Patient'']
                         else if i = ''InlinePatient'' then [FshInstance i ''456'' here ''Patient'']
                         else []),
      tank_fishForMetadata =
        (\<lambda>i ts. if i = ''A1'' then Some T_A1 else if i = ''B1'' then Some T_B1
                 else if i = ''A2'' then Some T_A2 else if i = ''B2'' then Some T_B2
                 else if i = ''A3'' then Some T_A3 else if i = ''B3'' then Some T_B3
                 else if i = ''A4'' then Some T_A4 else if i = ''B4'' then Some T_B4
                 else if i = ''VS'' then Some VS
                 else if i = ''Vitals'' then Some T_Vitals
                 else if i = ''PatientExample'' then Some T_Example
                 else if i = ''InlinePatient'' then Some T_Inline
                 else None),
      tank_fishForMetadatas =
        (\<lambda>i ts. if i = ''A1'' then [T_A1] else if i = ''B1'' then [T_B1]
                 else if i = ''A2'' then [T_A2] else if i = ''B2'' then [T_B2]
                 else if i = ''A3'' then [T_A3] else if i = ''B3'' then [T_B3]
                 else if i = ''A4'' then [T_A4] else if i = ''B4'' then [T_B4]
                 else if i = ''VS'' then [VS]
                 else if i = ''Vitals'' then [T_Vitals]
                 else if i = ''PatientExample'' then [T_Example]
                 else if i = ''InlinePatient'' then [T_Inline]
                 else []),
      config_fhirVersion = Some [''4.0.1'']\<rparr>"

definition ex_fhir :: FHIRDefinitions where
  "ex_fhir =
     \<lparr>fishForPredefinedResource =
        (\<lambda>i ts. if i = ''Base'' then Some (fhirJson ''Base of FHIR'') else None),
      fishForPredefinedResourceMetadata = (\<lambda>i ts. if i = ''Base'' then Some F_Base else None),
      fishForPredefinedResourceMetadatas = (\<lambda>i ts. if i = ''Base'' then [F_Base] else []),
      fhir_fishForFHIR =
        (\<lambda>i ts. if i = ''Base'' then Some (fhirJson ''Base of FHIR'')
                 else if i = ''Observation'' then Some (fhirJson ''Observation of FHIR'')
                 else if i = ''Vitals'' then Some (fhirJson ''Vitals of FHIR'')
                 else None),
      fhir_fishForMetadata =
        (\<lambda>i ts. if i = ''Base'' then Some F_Base
                 else if i = ''Observation'' then Some F_Observation
                 else if i = ''Vitals'' then Some F_Vitals
                 else None),
      fhir_fishForMetadatas =
        (\<lambda>i ts. if i = ''Base'' then [F_Base]
                 else if i = ''Observation'' then [F_Observation]
                 else if i = ''Vitals'' then [F_Vitals]
                 else [])\<rparr>"

definition ex_pkg :: Package where
  "ex_pkg =
     \<lparr>pkg_fishForFHIR =
        (\<lambda>i ts. if i = ''Base'' then Some (fhirJson ''Base of the package'')
                 else if i = ''Observation'' then Some (fhirJson ''Observation of the package'')
                 else None),
      pkg_fishForMetadata =
        (\<lambda>i ts. if i = ''Base'' then Some P_Base
                 else if i = ''Observation'' then Some P_Observation
                 else if i = ''Draft'' then Some P_Draft
                 else if i = ''VS'' then Some VS
                 else None),
      pkg_fishForMetadatas =
        (\<lambda>i ts. if i = ''Base'' then [P_Base]
                 else if i = ''Observation'' then [P_Observation]
                 else if i = ''Draft'' then [P_Draft]
                 else if i = ''VS'' then [VS]
                 else []),
      canonical = ''http://example.org''\<rparr>"

definition ex_mf :: MasterFisher where
  "ex_mf = new_MasterFisher (Some ex_tank) (Some ex_fhir) (Some ex_pkg)"

definition ex_mf_no_pkg :: MasterFisher where
  "ex_mf_no_pkg = new_MasterFisher (Some ex_tank) (Some ex_fhir) None"

section \<open>Properties\<close>

subsection \<open>The examples, evaluated\<close>

lemma ex_mf_fields:
  "fhir ex_mf = Some ex_fhir" "tank ex_mf = Some ex_tank" "pkg ex_mf = Some ex_pkg"
  by (simp_all add: ex_mf_def new_MasterFisher_def)

lemma ex_resolve:
  "resolve ex_mf ''OBS'' = ''Observation''"
  "i \<noteq> ''OBS'' \<Longrightarrow> resolve ex_mf i = i"
  by (simp_all add: resolve_def ex_mf_fields) (simp_all add: ex_tank_def)

subsection \<open>fishForFHIR\<close>

text \<open>
  C1. When neither the index of predefined resources nor the package knows the (resolved)
  item and the tank has a definition for it, \<open>fishForFHIR\<close> returns \<open>undefined\<close>,
  whatever the FHIR definitions hold under that name. A MasterFisher without package
  counts as one whose package has no match.
\<close>

theorem C1_tank_definition_hides_fhir_definition:
  assumes "fhir mf = Some fd"
    and "fishForPredefinedResource fd (resolve mf item) types = None"
    and "\<forall>p. pkg mf = Some p \<longrightarrow> pkg_fishForFHIR p (resolve mf item) types = None"
    and "tank mf = Some tk"
    and "fish tk (resolve mf item) types = Some d"
  shows "fishForFHIR mf item types = Inr None"
  using assms by (auto simp: fishForFHIR_def Let_def split: option.splits)

theorem C1_witness_Vitals:
  "fhir ex_mf = Some ex_fhir \<and> tank ex_mf = Some ex_tank \<and> pkg ex_mf = Some ex_pkg \<and>
   fishForPredefinedResource ex_fhir (resolve ex_mf ''Vitals'') [] = None \<and>
   pkg_fishForFHIR ex_pkg (resolve ex_mf ''Vitals'') [] = None \<and>
   fish ex_tank (resolve ex_mf ''Vitals'') [] = Some (FshEntity ''Vitals'' ''Vitals'' here) \<and>
   fhir_fishForFHIR ex_fhir (resolve ex_mf ''Vitals'') [] = Some (fhirJson ''Vitals of FHIR'') \<and>
   fishForFHIR ex_mf ''Vitals'' [] = Inr None"
proof -
  have r: "resolve ex_mf ''Vitals'' = ''Vitals''"
    by (simp add: ex_resolve)
  have h1: "fishForPredefinedResource ex_fhir (resolve ex_mf ''Vitals'') [] = None"
    unfolding r by (simp add: ex_fhir_def)
  have h2: "\<forall>q. pkg ex_mf = Some q \<longrightarrow> pkg_fishForFHIR q (resolve ex_mf ''Vitals'') [] = None"
    unfolding r ex_mf_fields by (simp add: ex_pkg_def)
  have h3: "fish ex_tank (resolve ex_mf ''Vitals'') [] = Some (FshEntity ''Vitals'' ''Vitals'' here)"
    unfolding r by (simp add: ex_tank_def)
  have h4: "fhir_fishForFHIR ex_fhir (resolve ex_mf ''Vitals'') [] = Some (fhirJson ''Vitals of FHIR'')"
    unfolding r by (simp add: ex_fhir_def)
  from C1_tank_definition_hides_fhir_definition [OF ex_mf_fields(1) h1 h2 ex_mf_fields(2) h3]
    ex_mf_fields h1 h2 h3 h4
  show ?thesis by simp
qed

text \<open>
  C7. A match of the index of predefined resources is returned at once, by \<open>fishForFHIR\<close>
  and by \<open>fishForMetadata\<close>: the package is not asked, and the metadata is returned as
  the index gave it. The example has a \<open>Base\<close> in the package as well.
\<close>

theorem C7_predefined_resource_first:
  assumes "fhir mf = Some fd"
  shows "(fishForPredefinedResource fd (resolve mf item) types = Some r \<longrightarrow>
            fishForFHIR mf item types = Inr (Some r)) \<and>
         (fishForPredefinedResourceMetadata fd (resolve mf item) types = Some m \<longrightarrow>
            fishForMetadata depth mf item types = Some (Inr (Some m), []))"
  using assms by (simp add: fishForFHIR_def fishForMetadata.simps Let_def)

theorem C7_witness_Base:
  "pkg_fishForFHIR ex_pkg ''Base'' [] = Some (fhirJson ''Base of the package'') \<and>
   pkg_fishForMetadata ex_pkg ''Base'' [] = Some P_Base \<and>
   fishForFHIR ex_mf ''Base'' [] = Inr (Some (fhirJson ''Base of FHIR'')) \<and>
   fishForMetadata 0 ex_mf ''Base'' [] = Some (Inr (Some F_Base), [])"
proof -
  have r: "resolve ex_mf ''Base'' = ''Base''"
    by (simp add: ex_resolve)
  have h1: "fishForPredefinedResource ex_fhir (resolve ex_mf ''Base'') [] =
            Some (fhirJson ''Base of FHIR'')"
    unfolding r by (simp add: ex_fhir_def)
  have h2: "fishForPredefinedResourceMetadata ex_fhir (resolve ex_mf ''Base'') [] = Some F_Base"
    unfolding r by (simp add: ex_fhir_def)
  have h3: "pkg_fishForFHIR ex_pkg ''Base'' [] = Some (fhirJson ''Base of the package'')"
    and h4: "pkg_fishForMetadata ex_pkg ''Base'' [] = Some P_Base"
    by (simp_all add: ex_pkg_def)
  from C7_predefined_resource_first [OF ex_mf_fields(1), of "''Base''" "[]"
      "fhirJson ''Base of FHIR''" F_Base 0] h1 h2 h3 h4
  show ?thesis by simp
qed

text \<open>
  C9. A MasterFisher constructed without FHIR definitions throws in each of the three
  operations, at the call on \<open>this.fhir\<close> that comes before any other lookup: whatever the
  item, the tank and the package. So an operation that does not throw has FHIR definitions.
\<close>

theorem C9_without_fhir_every_operation_throws:
  "fishForFHIR (new_MasterFisher t None p) item types = Inl TypeError \<and>
   fishForMetadata depth (new_MasterFisher t None p) item types = Some (Inl TypeError, []) \<and>
   fishForMetadatas depth (new_MasterFisher t None p) item types = Some (Inl TypeError, [])"
  by (simp add: fishForFHIR_def fishForMetadata.simps fishForMetadatas_def
      new_MasterFisher_def Let_def)

theorem C9_witness_Observation:
  "pkg_fishForFHIR ex_pkg ''Observation'' [] = Some (fhirJson ''Observation of the package'') \<and>
   tank_fishForMetadata ex_tank ''A2'' [] = Some T_A2 \<and>
   fishForFHIR (new_MasterFisher (Some ex_tank) None (Some ex_pkg)) ''Observation'' [] =
     Inl TypeError \<and>
   fishForMetadata 1 (new_MasterFisher (Some ex_tank) None (Some ex_pkg)) ''A2'' [] =
     Some (Inl TypeError, []) \<and>
   fishForMetadatas 1 (new_MasterFisher (Some ex_tank) None (Some ex_pkg)) ''Observation'' [] =
     Some (Inl TypeError, [])"
proof -
  have h1: "pkg_fishForFHIR ex_pkg ''Observation'' [] =
            Some (fhirJson ''Observation of the package'')"
    by (simp add: ex_pkg_def)
  have h2: "tank_fishForMetadata ex_tank ''A2'' [] = Some T_A2"
    by (simp add: ex_tank_def)
  from C9_without_fhir_every_operation_throws [of "Some ex_tank" "Some ex_pkg" "''Observation''" "[]"]
    C9_without_fhir_every_operation_throws [of "Some ex_tank" "Some ex_pkg" "''A2''" "[]" 1]
    h1 h2
  show ?thesis by simp
qed

text \<open>
  C2. The package comes before the FHIR definitions only after the index of predefined
  resources: an item that the index knows is answered from the FHIR definitions even when
  the package holds it too, as \<open>Base\<close> shows.
\<close>

theorem C2_counterexample_Base:
  "pkg_fishForFHIR ex_pkg ''Base'' [] = Some (fhirJson ''Base of the package'') \<and>
   fhir_fishForFHIR ex_fhir ''Base'' [] = Some (fhirJson ''Base of FHIR'') \<and>
   fhirJson ''Base of the package'' \<noteq> fhirJson ''Base of FHIR'' \<and>
   fishForFHIR ex_mf ''Base'' [] \<noteq> Inr (Some (fhirJson ''Base of the package'')) \<and>
   pkg_fishForMetadata ex_pkg ''Base'' [] = Some P_Base \<and>
   fhir_fishForMetadata ex_fhir ''Base'' [] = Some F_Base \<and>
   P_Base \<noteq> F_Base \<and>
   fishForMetadata 0 ex_mf ''Base'' [] \<noteq> Some (Inr (Some P_Base), [])"
proof -
  have "fishForFHIR ex_mf ''Base'' [] = Inr (Some (fhirJson ''Base of FHIR''))"
    by (simp add: fishForFHIR_def ex_mf_fields ex_resolve Let_def) (simp add: ex_fhir_def)
  moreover have "fishForMetadata 0 ex_mf ''Base'' [] = Some (Inr (Some F_Base), [])"
    by (simp add: fishForMetadata.simps ex_mf_fields ex_resolve Let_def) (simp add: ex_fhir_def)
  moreover have "fhirJson ''Base of the package'' \<noteq> fhirJson ''Base of FHIR''"
    by (simp add: fhirJson_def)
  moreover have "P_Base \<noteq> F_Base"
    by (simp add: P_Base_def F_Base_def resource_def blank_def)
  ultimately show ?thesis
    by (simp add: ex_pkg_def ex_fhir_def)
qed

text \<open>
  C2, amended. For an item that the index of predefined resources does not know and that
  the package knows, \<open>fishForFHIR\<close> returns the definition of the package, and
  \<open>fishForMetadata\<close> returns the metadata of the package, to which the url is added
  when it has none and is not an inline Instance; the FHIR definitions are not asked.
\<close>

theorem C2_package_before_fhir:
  assumes "fhir mf = Some fd" and "pkg mf = Some p"
  shows "(fishForPredefinedResource fd (resolve mf item) types = None \<and>
          pkg_fishForFHIR p (resolve mf item) types = Some r \<longrightarrow>
            fishForFHIR mf item types = Inr (Some r)) \<and>
         (fishForPredefinedResourceMetadata fd (resolve mf item) types = None \<and>
          pkg_fishForMetadata p (resolve mf item) types = Some m \<longrightarrow>
            fishForMetadata depth mf item types =
              Some (Inr (Some (if falsy (url m) \<and> read (instanceUsage m) \<noteq> Some Inline
                               then m\<lparr>url := Value (canonical p @ ''/'' @
                                       template (resourceType m) @ ''/'' @ id m)\<rparr>
                               else m)), []))"
  using assms
  by (simp add: fishForFHIR_def fishForMetadata.simps fixMetadata.simps fishables_of_def
      addUrl_def Let_def)

theorem C2_witness_Observation:
  "fhir_fishForFHIR ex_fhir ''Observation'' [] = Some (fhirJson ''Observation of FHIR'') \<and>
   fhir_fishForMetadata ex_fhir ''Observation'' [] = Some F_Observation \<and>
   fishForFHIR ex_mf ''Observation'' [] = Inr (Some (fhirJson ''Observation of the package'')) \<and>
   fishForMetadata 0 ex_mf ''Observation'' [] = Some (Inr (Some P_Observation), [])"
proof -
  have r: "resolve ex_mf ''Observation'' = ''Observation''"
    by (simp add: ex_resolve)
  have h1: "fishForPredefinedResource ex_fhir (resolve ex_mf ''Observation'') [] = None"
    and h2: "fishForPredefinedResourceMetadata ex_fhir (resolve ex_mf ''Observation'') [] = None"
    and h3: "fhir_fishForFHIR ex_fhir ''Observation'' [] = Some (fhirJson ''Observation of FHIR'')"
    and h4: "fhir_fishForMetadata ex_fhir ''Observation'' [] = Some F_Observation"
    unfolding r by (simp_all add: ex_fhir_def)
  have h5: "pkg_fishForFHIR ex_pkg (resolve ex_mf ''Observation'') [] =
            Some (fhirJson ''Observation of the package'')"
    and h6: "pkg_fishForMetadata ex_pkg (resolve ex_mf ''Observation'') [] = Some P_Observation"
    unfolding r by (simp_all add: ex_pkg_def)
  have h7: "\<not> falsy (url P_Observation)"
    by (simp add: P_Observation_def resource_def blank_def)
  from C2_package_before_fhir [OF ex_mf_fields(1) ex_mf_fields(3), of "''Observation''" "[]"
      "fhirJson ''Observation of the package''" P_Observation 0] h1 h2 h3 h4 h5 h6 h7
  show ?thesis by simp
qed

subsection \<open>The walk along the parents\<close>

lemma findParent_firstResult:
  "findParent mf p types history fishables =
     (case firstResult fishables p types of
        None \<Rightarrow> NoParentResult
      | Some (pr, fb) \<Rightarrow>
          if list_ex (\<lambda>md. read (url md) = read (url pr)) history
          then Circular \<lparr>message = circular_message mf history pr, location = errorLocation fb p\<rparr>
          else Pushed pr)"
  by (induction fishables) (simp_all split: option.splits)

lemma findSdType_while_done:
  "sd \<noteq> None \<or> p = None \<Longrightarrow> findSdType_while mf types fishables history sd p = Some (sd, [])"
  by (subst findSdType_while.simps) (auto split: option.splits)

lemma findSdType_while_no_parent:
  assumes "firstResult fishables (resolve mf p) types = None"
  shows "findSdType_while mf types fishables history None (Some p) = Some (None, [])"
  using assms
  by (subst findSdType_while.simps) (simp add: findParent_firstResult findSdType_while_done)

lemma findSdType_while_round:
  assumes "firstResult fishables (resolve mf p) types = Some (pr, fb)"
  shows "findSdType_while mf types fishables history None (Some p) =
     (if list_ex (\<lambda>md. read (url md) = read (url pr)) history
      then Some (None, [\<lparr>message = circular_message mf history pr,
                         location = errorLocation fb (resolve mf p)\<rparr>])
      else findSdType_while mf types fishables (history @ [pr])
             (read (sdType pr)) (read (parent pr)))"
  using assms
  by (subst findSdType_while.simps) (simp add: findParent_firstResult)

text \<open>
  C10. One round of the walk, for a parent \<open>p\<close> whose first match among the fishables
  is \<open>pr\<close>: the round logs the circular dependency and returns \<open>undefined\<close> exactly
  when some record of the history has the url of \<open>pr\<close>, as \<open>===\<close> compares them, and
  otherwise goes on with \<open>pr\<close> pushed on the history. Two absent urls are equal, so a
  match without url after a visited record without url ends the walk in this way,
  whether or not the parents form a cycle.
\<close>

theorem C10_cycle_is_a_repeated_url:
  assumes "firstResult fishables (resolve mf p) types = Some (pr, fb)"
  shows "findSdType_while mf types fishables history None (Some p) =
           (if list_ex (\<lambda>md. read (url md) = read (url pr)) history
            then Some (None, [\<lparr>message = circular_message mf history pr,
                               location = errorLocation fb (resolve mf p)\<rparr>])
            else findSdType_while mf types fishables (history @ [pr])
                   (read (sdType pr)) (read (parent pr))) \<and>
         (list_ex (\<lambda>md. read (url md) = None) history \<and> read (url pr) = None \<longrightarrow>
            findSdType_while mf types fishables history None (Some p) =
              Some (None, [\<lparr>message = circular_message mf history pr,
                            location = errorLocation fb (resolve mf p)\<rparr>]))"
proof -
  have round: "findSdType_while mf types fishables history None (Some p) =
     (if list_ex (\<lambda>md. read (url md) = read (url pr)) history
      then Some (None, [\<lparr>message = circular_message mf history pr,
                         location = errorLocation fb (resolve mf p)\<rparr>])
      else findSdType_while mf types fishables (history @ [pr])
             (read (sdType pr)) (read (parent pr)))"
    by (rule findSdType_while_round [OF assms])
  have "list_ex (\<lambda>md. read (url md) = read (url pr)) history"
    if "list_ex (\<lambda>md. read (url md) = None) history" and "read (url pr) = None"
    using that by (simp add: list_ex_iff)
  with round show ?thesis by simp
qed


text \<open>
  In the example, \<open>A3\<close> has the parent \<open>B3\<close>, which has the parent Observation, a
  FHIR resource without parent; \<open>A3\<close> and \<open>B3\<close> have no url.
\<close>

lemma ex_fishables: "fishables_of ex_mf = [Pkg ex_pkg, Tank ex_tank, Fhir ex_fhir]"
  by (simp add: fishables_of_def ex_mf_fields)

lemma ex_firstResult_tank:
  "firstResult (fishables_of ex_mf) ''A1'' [] = Some (T_A1, Tank ex_tank)"
  "firstResult (fishables_of ex_mf) ''B1'' [] = Some (T_B1, Tank ex_tank)"
  "firstResult (fishables_of ex_mf) ''A2'' [] = Some (T_A2, Tank ex_tank)"
  "firstResult (fishables_of ex_mf) ''B2'' [] = Some (T_B2, Tank ex_tank)"
  "firstResult (fishables_of ex_mf) ''A3'' [] = Some (T_A3, Tank ex_tank)"
  "firstResult (fishables_of ex_mf) ''B3'' [] = Some (T_B3, Tank ex_tank)"
  "firstResult (fishables_of ex_mf) ''PatientExample'' [] = Some (T_Example, Tank ex_tank)"
  "firstResult (fishables_of ex_mf) ''InlinePatient'' [] = Some (T_Inline, Tank ex_tank)"
  "firstResult (fishables_of ex_mf) ''Observation'' [] = Some (P_Observation, Pkg ex_pkg)"
  "firstResult (fishables_of ex_mf) ''Draft'' [] = Some (P_Draft, Pkg ex_pkg)"
  unfolding ex_fishables
  by (simp_all add: ex_pkg_def) (simp_all add: ex_tank_def)

theorem C10_witness_A3:
  "read (url T_A3) = None \<and> read (url T_B3) = None \<and> read (parent T_A3) = Some ''B3'' \<and>
   read (parent T_B3) = Some ''Observation'' \<and>
   fhir_fishForMetadata ex_fhir ''Observation'' [] = Some F_Observation \<and>
   read (parent F_Observation) = None \<and>
   findSdType ex_mf T_A3 [] (fishables_of ex_mf) =
     Some (None, [\<lparr>message = ''Circular dependency detected on parent relationships: A3 < B3'',
                   location = Some here\<rparr>])"
proof -
  have r: "resolve ex_mf ''B3'' = ''B3''"
    by (simp add: ex_resolve)
  have h1: "firstResult (fishables_of ex_mf) (resolve ex_mf ''B3'') [] = Some (T_B3, Tank ex_tank)"
    unfolding r by (rule ex_firstResult_tank)
  have h2: "read (url T_A3) = None" "read (url T_B3) = None" "read (parent T_A3) = Some ''B3''"
    "read (parent T_B3) = Some ''Observation''" "read (sdType T_A3) = None"
    "name T_A3 = ''A3''" "name T_B3 = ''B3''" "id T_B3 = ''B3''"
    by (simp_all add: T_A3_def T_B3_def profile_def blank_def)
  have h3: "fhir_fishForMetadata ex_fhir ''Observation'' [] = Some F_Observation"
    "fhir_fishForMetadata ex_fhir ''B3'' [] = None"
    by (simp_all add: ex_fhir_def)
  have h4: "read (parent F_Observation) = None"
    by (simp add: F_Observation_def resource_def blank_def)
  have h5: "circular_message ex_mf [T_A3] T_B3 =
            ''Circular dependency detected on parent relationships: A3 < B3''"
    by (simp add: circular_message_def ex_mf_fields h2 h3)
  have h6: "errorLocation (Tank ex_tank) ''B3'' = Some here"
    by (simp add: ex_tank_def)
  from C10_cycle_is_a_repeated_url [OF h1, of "[T_A3]"] h2 h3 h4 h5 h6 r
  show ?thesis by (simp add: findSdType_def)
qed

subsection \<open>fixMetadata\<close>

lemma addUrl_frame:
  assumes "addUrl mf m = Inr r"
  shows "id r = id m" "name r = name m" "sdType r = sdType m" "resourceType r = resourceType m"
    "parent r = parent m" "instanceUsage r = instanceUsage m"
  using assms by (auto simp: addUrl_def split: if_splits option.splits)

lemma addUrl_pkg:
  assumes "pkg mf = Some p"
  shows "addUrl mf m =
           Inr (if falsy (url m) \<and> read (instanceUsage m) \<noteq> Some Inline
                then m\<lparr>url := Value (canonical p @ ''/'' @ template (resourceType m) @ ''/'' @ id m)\<rparr>
                else m)"
  using assms by (simp add: addUrl_def)

lemma fixMetadata_not_tank:
  assumes "\<not> isTank fishable"
  shows "fixMetadata depth mf m item types fishable fishables = Some (addUrl mf m, [])"
  using assms by (cases fishable) (simp_all add: fixMetadata.simps)

text \<open>What the tank branch of \<open>fixMetadata\<close> hands to the url step.\<close>

lemma fixMetadata_tank_cases:
  assumes "fixMetadata depth mf m item types (Tank tk) fishables = Some (Inr r, log)"
  shows "\<exists>m2 sd l. addUrl mf m2 = Inr r \<and> findSdType mf m types fishables = Some (sd, l) \<and>
           sdType m2 = assign sd \<and> id m2 = id m \<and> name m2 = name m \<and> url m2 = url m \<and>
           parent m2 = parent m \<and> instanceUsage m2 = instanceUsage m"
  using assms
  by (fastforce simp: fixMetadata.simps Let_def
      split: option.splits prod.splits sum.splits if_splits list.splits FshDefinition.splits
        nat.splits)


lemma addUrl_only_url:
  assumes "addUrl mf m = Inr r"
  shows "r = m\<lparr>url := url r\<rparr>"
  using assms by (auto simp: addUrl_def split: if_splits option.splits)

lemma addUrl_synthesis:
  assumes "addUrl mf m = Inr r"
  shows "(falsy (url m) \<and> read (instanceUsage m) \<noteq> Some Inline \<longrightarrow>
            (\<exists>p. pkg mf = Some p \<and>
                 url r = Value (canonical p @ ''/'' @ template (resourceType r) @ ''/'' @ id r))) \<and>
         (read (instanceUsage m) = Some Inline \<longrightarrow> url r = url m) \<and>
         (\<not> falsy (url m) \<longrightarrow> url r = url m)"
  using assms by (auto simp: addUrl_def split: if_splits option.splits)

lemma mapFix_not_tank:
  assumes "\<not> isTank fishable"
  shows "\<exists>res. mapFix depth mf item types fishable fishables ms = Some (res, []) \<and>
               (\<forall>rs. res = Inr rs \<longrightarrow> list_all2 (\<lambda>m r. addUrl mf m = Inr r) ms rs)"
proof (induction ms)
  case Nil
  show ?case by simp
next
  case (Cons m ms)
  then obtain res where res: "mapFix depth mf item types fishable fishables ms = Some (res, [])"
    and all: "\<forall>rs. res = Inr rs \<longrightarrow> list_all2 (\<lambda>m r. addUrl mf m = Inr r) ms rs"
    by blast
  show ?case
  proof (cases "addUrl mf m")
    case (Inl e)
    then show ?thesis
      by (simp add: fixMetadata_not_tank [OF assms])
  next
    case (Inr r)
    then show ?thesis
      using res all
      by (cases res) (simp_all add: fixMetadata_not_tank [OF assms])
  qed
qed

text \<open>
  C8. A result that does not come from the tank passes through the url step of
  \<open>fixMetadata\<close> and nothing else: \<open>fixMetadata\<close> logs nothing, and the record it
  returns is the record it was given up to the field \<open>url\<close>. This is what
  \<open>fishForMetadata\<close> returns for a first match outside the tank, and what
  \<open>fishForMetadatas\<close> gathers from the package and from the FHIR definitions. Whenever
  \<open>fixMetadata\<close> returns another \<open>sdType\<close> than it was given, the result came from
  the tank and the \<open>sdType\<close> is the one \<open>findSdType\<close> computed.
\<close>

theorem C8_results_of_package_and_fhir_keep_their_fields:
  "(\<not> isTank fishable \<longrightarrow>
      fixMetadata depth mf m item types fishable fishables = Some (addUrl mf m, []) \<and>
      (\<forall>r. addUrl mf m = Inr r \<longrightarrow> r = m\<lparr>url := url r\<rparr>) \<and>
      (fhir mf = Some fd \<and>
       fishForPredefinedResourceMetadata fd (resolve mf item0) types = None \<and>
       firstResult (fishables_of mf) (resolve mf item0) types = Some (m, fishable) \<longrightarrow>
         fishForMetadata depth mf item0 types =
           Some (case addUrl mf m of Inl e \<Rightarrow> Inl e | Inr r \<Rightarrow> Inr (Some r), [])) \<and>
      (\<exists>res. mapFix depth mf item types fishable fishables ms = Some (res, []) \<and>
             (\<forall>rs. res = Inr rs \<longrightarrow> list_all2 (\<lambda>m r. r = m\<lparr>url := url r\<rparr>) ms rs))) \<and>
   (fixMetadata depth mf m item types fishable fishables = Some (Inr r', log) \<longrightarrow>
      sdType r' = sdType m \<or>
      isTank fishable \<and>
      (\<exists>sd l. findSdType mf m types fishables = Some (sd, l) \<and> sdType r' = assign sd))"
proof -
  have frame: "r = m\<lparr>url := url r\<rparr>" if "addUrl mf m = Inr r" for m r
    using that by (rule addUrl_only_url)
  have one: "fixMetadata depth mf m item types fishable fishables = Some (addUrl mf m, [])"
    if "\<not> isTank fishable"
    using that by (rule fixMetadata_not_tank)
  have single: "fishForMetadata depth mf item0 types =
           Some (case addUrl mf m of Inl e \<Rightarrow> Inl e | Inr r \<Rightarrow> Inr (Some r), [])"
    if "\<not> isTank fishable" "fhir mf = Some fd"
      "fishForPredefinedResourceMetadata fd (resolve mf item0) types = None"
      "firstResult (fishables_of mf) (resolve mf item0) types = Some (m, fishable)"
    using that
    by (simp add: fishForMetadata.simps Let_def fixMetadata_not_tank split: sum.splits)
  have multi: "\<exists>res. mapFix depth mf item types fishable fishables ms = Some (res, []) \<and>
             (\<forall>rs. res = Inr rs \<longrightarrow> list_all2 (\<lambda>m r. r = m\<lparr>url := url r\<rparr>) ms rs)"
    if nt: "\<not> isTank fishable"
  proof -
    from mapFix_not_tank [OF nt, of depth mf item types fishables ms]
    obtain res where res: "mapFix depth mf item types fishable fishables ms = Some (res, [])"
      and all: "\<forall>rs. res = Inr rs \<longrightarrow> list_all2 (\<lambda>m r. addUrl mf m = Inr r) ms rs"
      by blast
    have "list_all2 (\<lambda>m r. r = m\<lparr>url := url r\<rparr>) ms rs" if "res = Inr rs" for rs
    proof -
      from all that have "list_all2 (\<lambda>m r. addUrl mf m = Inr r) ms rs" by blast
      then show ?thesis
        by (rule list_all2_mono) (rule frame)
    qed
    with res show ?thesis by blast
  qed
  have walk: "sdType r' = sdType m \<or>
      isTank fishable \<and>
      (\<exists>sd l. findSdType mf m types fishables = Some (sd, l) \<and> sdType r' = assign sd)"
    if fx: "fixMetadata depth mf m item types fishable fishables = Some (Inr r', log)"
  proof (cases "isTank fishable")
    case False
    with fx have "addUrl mf m = Inr r'"
      by (simp add: fixMetadata_not_tank)
    then show ?thesis
      by (simp add: addUrl_frame)
  next
    case True
    then obtain tk where tk: "fishable = Tank tk"
      by (cases fishable) simp_all
    from fixMetadata_tank_cases [OF fx [unfolded tk]]
    obtain m2 sd l where "addUrl mf m2 = Inr r'"
      "findSdType mf m types fishables = Some (sd, l)" "sdType m2 = assign sd"
      by blast
    with True show ?thesis
      by (simp add: addUrl_frame)
  qed
  from frame one single multi walk show ?thesis
    by blast
qed

text \<open>
  C5. The url of a record that \<open>fixMetadata\<close> returns. When the record had no url
  (for JavaScript: \<open>!metadata.url\<close>, which holds for \<open>undefined\<close> and for the empty
  string) and is not an inline Instance, there is a package and the url is its canonical,
  the \<open>resourceType\<close> and the \<open>id\<close> of the record, joined by slashes. When the record is
  an inline Instance, or had a url, the url is the one it had.
\<close>

theorem C5_url_is_added_only_when_absent:
  assumes "fixMetadata depth mf m item types fishable fishables = Some (Inr r, log)"
  shows "(falsy (url m) \<and> read (instanceUsage m) \<noteq> Some Inline \<longrightarrow>
            (\<exists>p. pkg mf = Some p \<and>
                 url r = Value (canonical p @ ''/'' @ template (resourceType r) @ ''/'' @ id r))) \<and>
         (read (instanceUsage m) = Some Inline \<longrightarrow> url r = url m) \<and>
         (\<not> falsy (url m) \<longrightarrow> url r = url m)"
proof (cases fishable)
  case (Tank tk)
  from fixMetadata_tank_cases [OF assms [unfolded Tank]]
  obtain m2 where "addUrl mf m2 = Inr r" "url m2 = url m" "instanceUsage m2 = instanceUsage m"
    by blast
  with addUrl_synthesis [of mf m2 r] show ?thesis
    by simp
next
  case (Pkg p)
  with assms have "addUrl mf m = Inr r"
    by (simp add: fixMetadata_not_tank)
  then show ?thesis
    by (rule addUrl_synthesis)
next
  case (Fhir d)
  with assms have "addUrl mf m = Inr r"
    by (simp add: fixMetadata_not_tank)
  then show ?thesis
    by (rule addUrl_synthesis)
qed


theorem C8_witness_Draft:
  "read (sdType P_Draft) = None \<and> read (parent P_Draft) = Some ''Observation'' \<and>
   fixMetadata 0 ex_mf P_Draft ''Draft'' [] (Pkg ex_pkg) (fishables_of ex_mf) =
     Some (Inr (P_Draft\<lparr>url := Value ''http://example.org/StructureDefinition/Draft''\<rparr>), []) \<and>
   fishForMetadata 0 ex_mf ''Draft'' [] =
     Some (Inr (Some (P_Draft\<lparr>url := Value ''http://example.org/StructureDefinition/Draft''\<rparr>)), []) \<and>
   mapFix 0 ex_mf ''Draft'' [] (Pkg ex_pkg) (fishables_of ex_mf) [P_Draft] =
     Some (Inr [P_Draft\<lparr>url := Value ''http://example.org/StructureDefinition/Draft''\<rparr>], [])"
proof -
  have r: "resolve ex_mf ''Draft'' = ''Draft''"
    by (simp add: ex_resolve)
  have h1: "\<not> isTank (Pkg ex_pkg)"
    by simp
  have h2: "fishForPredefinedResourceMetadata ex_fhir (resolve ex_mf ''Draft'') [] = None"
    unfolding r by (simp add: ex_fhir_def)
  have h3: "firstResult (fishables_of ex_mf) (resolve ex_mf ''Draft'') [] = Some (P_Draft, Pkg ex_pkg)"
    unfolding r by (rule ex_firstResult_tank)
  have h4: "addUrl ex_mf P_Draft =
            Inr (P_Draft\<lparr>url := Value ''http://example.org/StructureDefinition/Draft''\<rparr>)"
    by (simp add: addUrl_def ex_mf_fields P_Draft_def profile_def blank_def) (simp add: ex_pkg_def)
  have h5: "read (sdType P_Draft) = None" "read (parent P_Draft) = Some ''Observation''"
    by (simp_all add: P_Draft_def profile_def blank_def)
  note c8 = C8_results_of_package_and_fhir_keep_their_fields [of "Pkg ex_pkg" 0 ex_mf P_Draft
      "''Draft''" "[]" "fishables_of ex_mf" ex_fhir "''Draft''" "[P_Draft]",
      THEN conjunct1, rule_format, OF h1]
  have a: "fixMetadata 0 ex_mf P_Draft ''Draft'' [] (Pkg ex_pkg) (fishables_of ex_mf) =
           Some (addUrl ex_mf P_Draft, [])"
    by (rule c8 [THEN conjunct1])
  have b: "fishForMetadata 0 ex_mf ''Draft'' [] =
           Some (case addUrl ex_mf P_Draft of Inl e \<Rightarrow> Inl e | Inr r \<Rightarrow> Inr (Some r), [])"
    by (rule c8 [THEN conjunct2, THEN conjunct2, THEN conjunct1, rule_format])
      (simp add: ex_mf_fields h2 h3)
  from a b h4 h5 show ?thesis
    by simp
qed

lemma ex_findSdType_no_parent:
  "read (parent m) = None \<Longrightarrow> findSdType mf m types fishables = Some (read (sdType m), [])"
  by (simp add: findSdType_def findSdType_while_done)

theorem C5_witness_PatientExample:
  "resourceType T_Example = Value ''Patient'' \<and> id T_Example = ''123'' \<and>
   url T_Example = Missing \<and> instanceUsage T_Example = Value Example \<and>
   canonical ex_pkg = ''http://example.org'' \<and>
   fixMetadata 0 ex_mf T_Example ''PatientExample'' [] (Tank ex_tank) (fishables_of ex_mf) =
     Some (Inr (T_Example\<lparr>sdType := Undefined, url := Value ''http://example.org/Patient/123''\<rparr>), []) \<and>
   instanceUsage T_Inline = Value Inline \<and> url T_Inline = Missing \<and>
   fixMetadata 0 ex_mf T_Inline ''InlinePatient'' [] (Tank ex_tank) (fishables_of ex_mf) =
     Some (Inr (T_Inline\<lparr>sdType := Undefined\<rparr>), [])"
proof -
  have h1: "resourceType T_Example = Value ''Patient''" "id T_Example = ''123''"
    "url T_Example = Missing" "instanceUsage T_Example = Value Example"
    "read (parent T_Example) = None" "read (sdType T_Example) = None"
    by (simp_all add: T_Example_def blank_def)
  have h2: "resourceType T_Inline = Value ''Patient''" "id T_Inline = ''456''"
    "url T_Inline = Missing" "instanceUsage T_Inline = Value Inline"
    "read (parent T_Inline) = None" "read (sdType T_Inline) = None"
    by (simp_all add: T_Inline_def blank_def)
  have h3: "canonical ex_pkg = ''http://example.org''"
    by (simp add: ex_pkg_def)
  have h4: "fixMetadata 0 ex_mf T_Example ''PatientExample'' [] (Tank ex_tank) (fishables_of ex_mf) =
     Some (Inr (T_Example\<lparr>sdType := Undefined, url := Value ''http://example.org/Patient/123''\<rparr>), [])"
    by (simp add: fixMetadata.simps ex_findSdType_no_parent h1 h3 addUrl_def ex_mf_fields)
  have h5: "fixMetadata 0 ex_mf T_Inline ''InlinePatient'' [] (Tank ex_tank) (fishables_of ex_mf) =
     Some (Inr (T_Inline\<lparr>sdType := Undefined\<rparr>), [])"
    by (simp add: fixMetadata.simps ex_findSdType_no_parent h2 addUrl_def)
  from C5_url_is_added_only_when_absent [OF h4] C5_url_is_added_only_when_absent [OF h5]
    h1 h2 h3 h4 h5
  show ?thesis by simp
qed

subsection \<open>uniqWith\<close>

lemma set_firstOccurrences: "set (firstOccurrences xs) = set xs"
  by (induction xs) auto

lemma distinct_firstOccurrences: "distinct (firstOccurrences xs)"
  by (induction xs) (auto simp: set_firstOccurrences)

lemma firstOccurrences_filter: "firstOccurrences (filter P xs) = filter P (firstOccurrences xs)"
proof (induction xs)
  case Nil
  show ?case by simp
next
  case (Cons x xs)
  show ?case
  proof (cases "P x")
    case True
    with Cons show ?thesis
      by (simp add: conj_commute)
  next
    case False
    then have "filter (\<lambda>y. P y \<and> y \<noteq> x) ys = filter P ys" for ys
      by (induction ys) auto
    with False Cons show ?thesis
      by (simp add: conj_commute)
  qed
qed

lemma uniqWith_loop_eq:
  "uniqWith_loop (=) xs result =
     result @ firstOccurrences (filter (\<lambda>y. y \<notin> set result) xs)"
proof (induction xs arbitrary: result)
  case Nil
  show ?case by simp
next
  case (Cons x xs)
  show ?case
  proof (cases "x \<in> set result")
    case True
    with Cons show ?thesis
      by (simp add: list_ex_iff)
  next
    case False
    have "filter (\<lambda>y. y \<notin> set (result @ [x])) xs =
          filter (\<lambda>y. y \<noteq> x) (filter (\<lambda>y. y \<notin> set result) xs)"
      by (induction xs) auto
    with False Cons [of "result @ [x]"] show ?thesis
      by (simp add: list_ex_iff firstOccurrences_filter conj_commute)
  qed
qed

lemma uniqWith_isEqual: "uniqWith xs isEqual = firstOccurrences xs"
proof -
  have "isEqual = (=)"
    by (intro ext) (simp add: isEqual_def)
  then show ?thesis
    by (simp add: uniqWith_def uniqWith_loop_eq)
qed

lemma mapFix_Inr:
  assumes "mapFix depth mf item types fishable fishables ms = Some (Inr rs, log)"
  shows "list_all2 (\<lambda>m r. \<exists>l. fixMetadata depth mf m item types fishable fishables = Some (Inr r, l))
           ms rs"
  using assms
proof (induction ms arbitrary: rs log)
  case Nil
  then show ?case by simp
next
  case (Cons m ms)
  then show ?case
    by (auto split: option.splits sum.splits prod.splits)
qed

lemma gather_Inr:
  assumes "gather depth mf item types fishables fbs = Some (Inr pushed, log)"
  shows "\<exists>gs. list_all2
           (\<lambda>fb g. list_all2
              (\<lambda>m r. \<exists>l. fixMetadata depth mf m item types fb fishables = Some (Inr r, l))
              (fishable_fishForMetadatas fb item types) g) fbs gs \<and>
         pushed = concat gs"
  using assms
proof (induction fbs arbitrary: pushed log)
  case Nil
  then show ?case by simp
next
  case (Cons fb fbs)
  from Cons.prems obtain results l1 rest l2 where
    r1: "mapFix depth mf item types fb fishables (fishable_fishForMetadatas fb item types) =
         Some (Inr results, l1)"
    and r2: "gather depth mf item types fishables fbs = Some (Inr rest, l2)"
    and p: "pushed = results @ rest"
    by (auto split: option.splits sum.splits prod.splits)
  from Cons.IH [OF r2] obtain gs where
    gs: "list_all2
           (\<lambda>fb g. list_all2
              (\<lambda>m r. \<exists>l. fixMetadata depth mf m item types fb fishables = Some (Inr r, l))
              (fishable_fishForMetadatas fb item types) g) fbs gs"
    and rest: "rest = concat gs"
    by blast
  from mapFix_Inr [OF r1] gs rest p show ?case
    by (intro exI [of _ "results # gs"]) simp
qed

text \<open>
  What \<open>uniqWith\<close> with \<open>isEqual\<close> does to the gathered records. A list that
  \<open>fishForMetadatas\<close> returns has no two records that \<open>isEqual\<close> takes for equal. It is
  made from the predefined resources that match, followed by the fixed results of each
  fishable in the order package, tank, FHIR definitions, by keeping every record where it
  comes first.
\<close>

lemma fishForMetadatas_first_occurrences:
  assumes "fishForMetadatas depth mf item0 types = Some (Inr rs, log)"
  shows "distinct rs \<and>
         (\<exists>fd gs. fhir mf = Some fd \<and>
            list_all2
              (\<lambda>fb g. list_all2
                 (\<lambda>m r. \<exists>l. fixMetadata depth mf m (resolve mf item0) types fb (fishables_of mf) =
                              Some (Inr r, l))
                 (fishable_fishForMetadatas fb (resolve mf item0) types) g)
              (fishables_of mf) gs \<and>
            rs = uniqWith (fishForPredefinedResourceMetadatas fd (resolve mf item0) types @ concat gs)
                   isEqual \<and>
            rs = firstOccurrences
                   (fishForPredefinedResourceMetadatas fd (resolve mf item0) types @ concat gs)) \<and>
         (\<forall>p t d. pkg mf = Some p \<and> tank mf = Some t \<and> fhir mf = Some d \<longrightarrow>
            fishables_of mf = [Pkg p, Tank t, Fhir d])"
proof -
  from assms obtain fd where fd: "fhir mf = Some fd"
    by (cases "fhir mf") (simp_all add: fishForMetadatas_def Let_def)
  from assms fd obtain pushed where
    g: "gather depth mf (resolve mf item0) types (fishables_of mf) (fishables_of mf) =
        Some (Inr pushed, log)"
    and rs: "rs = uniqWith (fishForPredefinedResourceMetadatas fd (resolve mf item0) types @ pushed)
                    isEqual"
    by (auto simp: fishForMetadatas_def Let_def split: option.splits sum.splits prod.splits)
  from gather_Inr [OF g] obtain gs where
    gs: "list_all2
              (\<lambda>fb g. list_all2
                 (\<lambda>m r. \<exists>l. fixMetadata depth mf m (resolve mf item0) types fb (fishables_of mf) =
                              Some (Inr r, l))
                 (fishable_fishForMetadatas fb (resolve mf item0) types) g)
              (fishables_of mf) gs"
    and pushed: "pushed = concat gs"
    by blast
  have "distinct rs"
    by (simp add: rs uniqWith_isEqual distinct_firstOccurrences)
  moreover have "rs = firstOccurrences
                   (fishForPredefinedResourceMetadatas fd (resolve mf item0) types @ concat gs)"
    by (simp add: rs pushed uniqWith_isEqual)
  moreover have "\<forall>p t d. pkg mf = Some p \<and> tank mf = Some t \<and> fhir mf = Some d \<longrightarrow>
            fishables_of mf = [Pkg p, Tank t, Fhir d]"
    by (simp add: fishables_of_def)
  ultimately show ?thesis
    using fd gs rs pushed by blast
qed


text \<open>
  \<open>Base\<close> is a predefined resource, is in the package under another url, and is found
  again by the full search of the FHIR definitions: the second copy is dropped.
\<close>

lemma ex_addUrl_resource: "u \<noteq> [] \<Longrightarrow> addUrl mf (resource n u) = Inr (resource n u)"
  by (simp add: addUrl_def resource_def blank_def)

lemma ex_first_occurrences_Base:
  "fishForPredefinedResourceMetadatas ex_fhir ''Base'' [] = [F_Base] \<and>
   pkg_fishForMetadatas ex_pkg ''Base'' [] = [P_Base] \<and>
   tank_fishForMetadatas ex_tank ''Base'' [] = [] \<and>
   fhir_fishForMetadatas ex_fhir ''Base'' [] = [F_Base] \<and>
   fishForMetadatas 0 ex_mf ''Base'' [] = Some (Inr [F_Base, P_Base], []) \<and>
   distinct [F_Base, P_Base]"
proof -
  have r: "resolve ex_mf ''Base'' = ''Base''"
    by (simp add: ex_resolve)
  have h1: "fishForPredefinedResourceMetadatas ex_fhir ''Base'' [] = [F_Base]"
    "fhir_fishForMetadatas ex_fhir ''Base'' [] = [F_Base]"
    by (simp_all add: ex_fhir_def)
  have h2: "pkg_fishForMetadatas ex_pkg ''Base'' [] = [P_Base]"
    by (simp add: ex_pkg_def)
  have h3: "tank_fishForMetadatas ex_tank ''Base'' [] = []"
    by (simp add: ex_tank_def)
  have h4: "addUrl ex_mf F_Base = Inr F_Base" "addUrl ex_mf P_Base = Inr P_Base"
    by (simp_all add: F_Base_def P_Base_def ex_addUrl_resource)
  have h5: "F_Base \<noteq> P_Base"
    by (simp add: P_Base_def F_Base_def resource_def blank_def)
  have h6: "gather 0 ex_mf ''Base'' [] (fishables_of ex_mf) (fishables_of ex_mf) =
            Some (Inr [P_Base, F_Base], [])"
    by (simp add: ex_fishables h1 h2 h3 h4 fixMetadata_not_tank)
  have h7: "fishForMetadatas 0 ex_mf ''Base'' [] = Some (Inr [F_Base, P_Base], [])"
    using h5 by (simp add: fishForMetadatas_def r ex_mf_fields h1 h6 uniqWith_isEqual)
  from fishForMetadatas_first_occurrences [OF h7] h1 h2 h3 h7
  show ?thesis by simp
qed

subsection \<open>fishForMetadata on a result of the tank\<close>

lemma fixMetadata_tank_plain:
  assumes "findSdType mf m types fishables = Some (sd, log)"
    and "\<not> falsy (resourceType m) \<or> list_all (\<lambda>e. \<not> is_FshInstance e) (fishAll tk item types)"
  shows "fixMetadata depth mf m item types (Tank tk) fishables =
         Some (addUrl mf (m\<lparr>sdType := assign sd\<rparr>), log)"
proof (cases "falsy (resourceType m)")
  case False
  with assms(1) show ?thesis
    by (simp add: fixMetadata.simps Let_def split: sum.splits)
next
  case True
  with assms(2) have all: "list_all (\<lambda>e. \<not> is_FshInstance e) (fishAll tk item types)"
    by simp
  have "\<not> is_FshInstance e"
    if "find (\<lambda>e. def_id e = id m \<and> def_name e = name m) (fishAll tk item types) = Some e" for e
    using that all by (auto simp: find_Some_iff list_all_iff)
  then show ?thesis
    using assms(1) True
    by (auto simp: fixMetadata.simps Let_def
        split: sum.splits option.splits FshDefinition.splits)
qed

lemma fishForMetadata_first:
  assumes "fhir mf = Some fd"
    and "fishForPredefinedResourceMetadata fd (resolve mf item0) types = None"
    and "firstResult (fishables_of mf) (resolve mf item0) types = Some (m, fb)"
    and "fixMetadata depth mf m (resolve mf item0) types fb (fishables_of mf) = Some (Inr r, log)"
  shows "fishForMetadata depth mf item0 types = Some (Inr (Some r), log)"
  using assms by (simp add: fishForMetadata.simps Let_def)

lemma gather_three:
  assumes "\<not> isTank a" "\<not> isTank c" "pkg mf = Some p"
    and "fixMetadata depth mf m item types (Tank tk) fishables = Some (Inr r, log)"
    and "fishable_fishForMetadatas (Tank tk) item types = [m]"
  shows "\<exists>xs ys. gather depth mf item types fishables [a, Tank tk, c] =
                  Some (Inr (xs @ [r] @ ys), log)"
proof -
  have total: "\<exists>rs. mapFix depth mf item types fb fishables ms = Some (Inr rs, [])"
    if "\<not> isTank fb" for fb ms
  proof (induction ms)
    case Nil
    show ?case by simp
  next
    case (Cons x xs)
    then show ?case
      using that assms(3) by (auto simp: fixMetadata_not_tank addUrl_pkg)
  qed
  from total [OF assms(1)] obtain xs where
    xs: "mapFix depth mf item types a fishables (fishable_fishForMetadatas a item types) =
         Some (Inr xs, [])"
    by blast
  from total [OF assms(2)] obtain ys where
    ys: "mapFix depth mf item types c fishables (fishable_fishForMetadatas c item types) =
         Some (Inr ys, [])"
    by blast
  have "gather depth mf item types fishables [a, Tank tk, c] = Some (Inr (xs @ [r] @ ys), log)"
    using xs ys assms(4,5) by simp
  then show ?thesis by blast
qed


lemma fishables_of_three:
  assumes "pkg mf = Some p" "tank mf = Some tk" "fhir mf = Some fd"
  shows "fishables_of mf = [Pkg p, Tank tk, Fhir fd]"
  using assms by (simp add: fishables_of_def)

lemma firstResult_three:
  "firstResult [Pkg p, Tank tk, Fhir fd] i ts =
     (case pkg_fishForMetadata p i ts of
        Some m \<Rightarrow> Some (m, Pkg p)
      | None \<Rightarrow>
          (case tank_fishForMetadata tk i ts of
             Some m \<Rightarrow> Some (m, Tank tk)
           | None \<Rightarrow>
               (case fhir_fishForMetadata fd i ts of
                  Some m \<Rightarrow> Some (m, Fhir fd)
                | None \<Rightarrow> None)))"
  by (simp split: option.splits)

lemma circular_message_names:
  "\<exists>hint. circular_message mf history pr =
     ''Circular dependency detected on parent relationships: '' @
     join '' < '' (map name (history @ [pr])) @ hint"
  by (simp add: circular_message_def Let_def split: option.splits)

lemma fishForMetadatas_tank_single:
  assumes "pkg mf = Some p" "tank mf = Some tk" "fhir mf = Some fd"
    and "fixMetadata depth mf m (resolve mf item0) types (Tank tk) (fishables_of mf) =
         Some (Inr r, log)"
    and "tank_fishForMetadatas tk (resolve mf item0) types = [m]"
  shows "\<exists>rs. fishForMetadatas depth mf item0 types = Some (Inr rs, log) \<and> r \<in> set rs"
proof -
  have fbs: "fishables_of mf = [Pkg p, Tank tk, Fhir fd]"
    using assms(1-3) by (rule fishables_of_three)
  from gather_three [of "Pkg p" "Fhir fd" mf p depth m "resolve mf item0" types tk
      "fishables_of mf" r log] assms
  obtain xs ys where
    "gather depth mf (resolve mf item0) types (fishables_of mf) [Pkg p, Tank tk, Fhir fd] =
     Some (Inr (xs @ [r] @ ys), log)"
    by auto
  then show ?thesis
    using assms(3) fbs
    by (simp add: fishForMetadatas_def Let_def uniqWith_isEqual set_firstOccurrences)
qed


text \<open>
  The walk reaches the end of a chain whose records have different urls. Let the item be
  found in the tank (the index of predefined resources and the package do not know it),
  with a record \<open>mA\<close> that has no \<open>sdType\<close> and the parent \<open>pb\<close>; let the first match
  for the resolved \<open>pb\<close>, among package, tank and FHIR definitions in this order, be
  \<open>mB\<close>, without \<open>sdType\<close> and with the parent \<open>pc\<close>; and let the first match for the
  resolved \<open>pc\<close> be \<open>mC\<close>, with the \<open>sdType\<close> \<open>t\<close>. When the urls of the three records
  differ from each other as \<open>===\<close> compares them, there is a package, and \<open>mA\<close> is not an
  Instance that waits for its \<open>resourceType\<close>, then \<open>fishForMetadata\<close> returns \<open>mA\<close>
  with the \<open>sdType\<close> \<open>t\<close>, and logs nothing.
\<close>

lemma sdType_of_the_end_of_the_chain:
  assumes "pkg mf = Some p" and "tank mf = Some tk" and "fhir mf = Some fd"
    and "fishForPredefinedResourceMetadata fd (resolve mf item) types = None"
    and "firstResult (fishables_of mf) (resolve mf item) types = Some (mA, Tank tk)"
    and "read (sdType mA) = None" and "read (parent mA) = Some pb"
    and "firstResult (fishables_of mf) (resolve mf pb) types = Some (mB, fB)"
    and "read (sdType mB) = None" and "read (parent mB) = Some pc"
    and "firstResult (fishables_of mf) (resolve mf pc) types = Some (mC, fC)"
    and "read (sdType mC) = Some t"
    and "read (url mB) \<noteq> read (url mA)"
    and "read (url mC) \<noteq> read (url mA)" and "read (url mC) \<noteq> read (url mB)"
    and "\<not> falsy (resourceType mA) \<or>
         list_all (\<lambda>e. \<not> is_FshInstance e) (fishAll tk (resolve mf item) types)"
  shows "(\<exists>r. fishForMetadata depth mf item types = Some (Inr (Some r), []) \<and>
              sdType r = Value t \<and> addUrl mf (mA\<lparr>sdType := Value t\<rparr>) = Inr r) \<and>
         (\<forall>i ts. firstResult (fishables_of mf) i ts =
            (case pkg_fishForMetadata p i ts of
               Some m \<Rightarrow> Some (m, Pkg p)
             | None \<Rightarrow>
                 (case tank_fishForMetadata tk i ts of
                    Some m \<Rightarrow> Some (m, Tank tk)
                  | None \<Rightarrow>
                      (case fhir_fishForMetadata fd i ts of
                         Some m \<Rightarrow> Some (m, Fhir fd)
                       | None \<Rightarrow> None))))"
proof -
  have fbs: "fishables_of mf = [Pkg p, Tank tk, Fhir fd]"
    using assms(1-3) by (rule fishables_of_three)
  have "findSdType_while mf types (fishables_of mf) [mA, mB, mC] (Some t) (read (parent mC)) =
        Some (Some t, [])"
    by (simp add: findSdType_while_done)
  then have "findSdType_while mf types (fishables_of mf) [mA, mB] None (Some pc) =
             Some (Some t, [])"
    using assms(12,14,15) by (simp add: findSdType_while_round [OF assms(11)])
  then have "findSdType_while mf types (fishables_of mf) [mA] None (Some pb) = Some (Some t, [])"
    using assms(9,10,13) by (simp add: findSdType_while_round [OF assms(8)])
  then have walk: "findSdType mf mA types (fishables_of mf) = Some (Some t, [])"
    using assms(6,7) by (simp add: findSdType_def)
  have fixed: "fixMetadata depth mf mA (resolve mf item) types (Tank tk) (fishables_of mf) =
           Some (addUrl mf (mA\<lparr>sdType := Value t\<rparr>), [])"
    using fixMetadata_tank_plain [OF walk assms(16)] by simp
  obtain r where r: "addUrl mf (mA\<lparr>sdType := Value t\<rparr>) = Inr r"
    by (simp add: addUrl_pkg [OF assms(1)])
  then have "sdType r = Value t"
    by (simp add: addUrl_frame)
  moreover have "fishForMetadata depth mf item types = Some (Inr (Some r), [])"
    using fixed r by (intro fishForMetadata_first [OF assms(3,4,5)]) simp
  moreover have "\<forall>i ts. firstResult (fishables_of mf) i ts =
            (case pkg_fishForMetadata p i ts of
               Some m \<Rightarrow> Some (m, Pkg p)
             | None \<Rightarrow>
                 (case tank_fishForMetadata tk i ts of
                    Some m \<Rightarrow> Some (m, Tank tk)
                  | None \<Rightarrow>
                      (case fhir_fishForMetadata fd i ts of
                         Some m \<Rightarrow> Some (m, Fhir fd)
                       | None \<Rightarrow> None)))"
    unfolding fbs by (intro allI) (rule firstResult_three)
  ultimately show ?thesis
    using r by blast
qed

text \<open>
  Circular parents, for a MasterFisher with a package. Let the item be found in the tank,
  with a record \<open>mA\<close> without \<open>sdType\<close> whose parent has the first match \<open>mB\<close>, without
  \<open>sdType\<close>, whose parent resolves to the item again; \<open>mA\<close> is not an Instance that
  waits for its \<open>resourceType\<close>. Then \<open>fishForMetadata\<close> throws nothing and returns
  \<open>mA\<close> with \<open>sdType\<close> set to \<open>undefined\<close>, and logs one error, whose message names
  \<open>mA\<close> and then \<open>mB\<close>: the history is \<open>mA < mB < mA\<close>, or \<open>mA < mB\<close> when \<open>mB\<close>
  has the url of \<open>mA\<close>. When the tank gives \<open>mA\<close> alone for the item,
  \<open>fishForMetadatas\<close> returns a list with that record, and has logged the same error
  and no other.
\<close>

lemma circular_parents_are_reported_once:
  assumes "pkg mf = Some p" and "tank mf = Some tk" and "fhir mf = Some fd"
    and "fishForPredefinedResourceMetadata fd (resolve mf item) types = None"
    and "firstResult (fishables_of mf) (resolve mf item) types = Some (mA, Tank tk)"
    and "read (sdType mA) = None" and "read (parent mA) = Some pb"
    and "firstResult (fishables_of mf) (resolve mf pb) types = Some (mB, fB)"
    and "read (sdType mB) = None" and "read (parent mB) = Some pc"
    and "resolve mf pc = resolve mf item"
    and "\<not> falsy (resourceType mA) \<or>
         list_all (\<lambda>e. \<not> is_FshInstance e) (fishAll tk (resolve mf item) types)"
  shows "\<exists>r d rest.
           fishForMetadata depth mf item types = Some (Inr (Some r), [d]) \<and>
           sdType r = Undefined \<and> addUrl mf (mA\<lparr>sdType := Undefined\<rparr>) = Inr r \<and>
           d = (if read (url mB) = read (url mA)
                then \<lparr>message = circular_message mf [mA] mB,
                      location = errorLocation fB (resolve mf pb)\<rparr>
                else \<lparr>message = circular_message mf [mA, mB] mA,
                      location = errorLocation (Tank tk) (resolve mf item)\<rparr>) \<and>
           message d = ''Circular dependency detected on parent relationships: '' @
                       name mA @ '' < '' @ name mB @ rest \<and>
           (tank_fishForMetadatas tk (resolve mf item) types = [mA] \<longrightarrow>
              (\<exists>rs. fishForMetadatas depth mf item types = Some (Inr rs, [d]) \<and> r \<in> set rs))"
proof -
  define d where "d =
     (if read (url mB) = read (url mA)
      then \<lparr>message = circular_message mf [mA] mB, location = errorLocation fB (resolve mf pb)\<rparr>
      else \<lparr>message = circular_message mf [mA, mB] mA,
            location = errorLocation (Tank tk) (resolve mf item)\<rparr>)"
  have again: "firstResult (fishables_of mf) (resolve mf pc) types = Some (mA, Tank tk)"
    using assms(5,11) by simp
  have "findSdType_while mf types (fishables_of mf) [mA] None (Some pb) = Some (None, [d])"
  proof (cases "read (url mB) = read (url mA)")
    case True
    then show ?thesis
      by (simp add: findSdType_while_round [OF assms(8)] d_def)
  next
    case False
    have "findSdType_while mf types (fishables_of mf) [mA, mB] None (Some pc) =
          Some (None, [\<lparr>message = circular_message mf [mA, mB] mA,
                        location = errorLocation (Tank tk) (resolve mf pc)\<rparr>])"
      by (simp add: findSdType_while_round [OF again])
    with False show ?thesis
      using assms(9,10,11) by (simp add: findSdType_while_round [OF assms(8)] d_def)
  qed
  then have walk: "findSdType mf mA types (fishables_of mf) = Some (None, [d])"
    using assms(6,7) by (simp add: findSdType_def)
  have fixed: "fixMetadata depth mf mA (resolve mf item) types (Tank tk) (fishables_of mf) =
           Some (addUrl mf (mA\<lparr>sdType := Undefined\<rparr>), [d])"
    using fixMetadata_tank_plain [OF walk assms(12)] by simp
  obtain r where r: "addUrl mf (mA\<lparr>sdType := Undefined\<rparr>) = Inr r"
    by (simp add: addUrl_pkg [OF assms(1)])
  then have sd: "sdType r = Undefined"
    by (simp add: addUrl_frame)
  have fixed': "fixMetadata depth mf mA (resolve mf item) types (Tank tk) (fishables_of mf) =
           Some (Inr r, [d])"
    using fixed r by simp
  have single: "fishForMetadata depth mf item types = Some (Inr (Some r), [d])"
    by (rule fishForMetadata_first [OF assms(3,4,5) fixed'])
  have multi: "\<exists>rs. fishForMetadatas depth mf item types = Some (Inr rs, [d]) \<and> r \<in> set rs"
    if "tank_fishForMetadatas tk (resolve mf item) types = [mA]"
    by (rule fishForMetadatas_tank_single [OF assms(1,2,3) fixed' that])
  obtain h1 where h1: "circular_message mf [mA] mB =
     ''Circular dependency detected on parent relationships: '' @
     join '' < '' (map name ([mA] @ [mB])) @ h1"
    using circular_message_names [of mf "[mA]" mB] by blast
  obtain h2 where h2: "circular_message mf [mA, mB] mA =
     ''Circular dependency detected on parent relationships: '' @
     join '' < '' (map name ([mA, mB] @ [mA])) @ h2"
    using circular_message_names [of mf "[mA, mB]" mA] by blast
  have "\<exists>rest. message d = ''Circular dependency detected on parent relationships: '' @
                       name mA @ '' < '' @ name mB @ rest"
  proof (cases "read (url mB) = read (url mA)")
    case True
    then have "message d = ''Circular dependency detected on parent relationships: '' @
                       name mA @ '' < '' @ name mB @ h1"
      by (simp add: d_def h1)
    then show ?thesis by blast
  next
    case False
    then have "message d = ''Circular dependency detected on parent relationships: '' @
                       name mA @ '' < '' @ name mB @ ('' < '' @ name mA @ h2)"
      by (simp add: d_def h2)
    then show ?thesis by blast
  qed
  then obtain rest where "message d = ''Circular dependency detected on parent relationships: '' @
                       name mA @ '' < '' @ name mB @ rest"
    by blast
  with single sd r multi show ?thesis
    unfolding d_def [symmetric] by blast
qed


lemma ex_profile_fields:
  "id (profile n u p) = n" "name (profile n u p) = n" "read (sdType (profile n u p)) = None"
  "resourceType (profile n u p) = Value ''StructureDefinition''" "url (profile n u p) = u"
  "read (parent (profile n u p)) = Some p" "instanceUsage (profile n u p) = Missing"
  by (simp_all add: profile_def blank_def)

lemma ex_resource_fields:
  "id (resource n u) = n" "name (resource n u) = n" "read (sdType (resource n u)) = Some n"
  "url (resource n u) = Value u" "read (parent (resource n u)) = None"
  by (simp_all add: resource_def blank_def)

lemma ex_fast_none:
  "i \<noteq> ''Base'' \<Longrightarrow> fishForPredefinedResourceMetadata ex_fhir i ts = None"
  by (simp add: ex_fhir_def)

lemma ex_chain_A2:
  "tank_fishForMetadata ex_tank ''A2'' [] = Some T_A2 \<and> read (parent T_A2) = Some ''B2'' \<and>
   tank_fishForMetadata ex_tank ''B2'' [] = Some T_B2 \<and> read (parent T_B2) = Some ''OBS'' \<and>
   resolve ex_mf ''OBS'' = ''Observation'' \<and>
   pkg_fishForMetadata ex_pkg ''Observation'' [] = Some P_Observation \<and>
   fhir_fishForMetadata ex_fhir ''Observation'' [] = Some F_Observation \<and>
   read (sdType P_Observation) = Some ''Observation'' \<and>
   fishForMetadata 0 ex_mf ''A2'' [] = Some (Inr (Some (T_A2\<lparr>sdType := Value ''Observation''\<rparr>)), [])"
proof -
  have r: "resolve ex_mf ''A2'' = ''A2''" "resolve ex_mf ''B2'' = ''B2''"
    "resolve ex_mf ''OBS'' = ''Observation''"
    by (simp_all add: ex_resolve)
  have h1: "fishForPredefinedResourceMetadata ex_fhir (resolve ex_mf ''A2'') [] = None"
    unfolding r by (simp add: ex_fast_none)
  have h2: "firstResult (fishables_of ex_mf) (resolve ex_mf ''A2'') [] = Some (T_A2, Tank ex_tank)"
    "firstResult (fishables_of ex_mf) (resolve ex_mf ''B2'') [] = Some (T_B2, Tank ex_tank)"
    "firstResult (fishables_of ex_mf) (resolve ex_mf ''OBS'') [] = Some (P_Observation, Pkg ex_pkg)"
    unfolding r by (rule ex_firstResult_tank)+
  have h3: "read (sdType T_A2) = None" "read (parent T_A2) = Some ''B2''"
    "read (sdType T_B2) = None" "read (parent T_B2) = Some ''OBS''"
    "read (sdType P_Observation) = Some ''Observation''"
    by (simp_all add: T_A2_def T_B2_def P_Observation_def ex_profile_fields ex_resource_fields)
  have h4: "read (url T_B2) \<noteq> read (url T_A2)" "read (url P_Observation) \<noteq> read (url T_A2)"
    "read (url P_Observation) \<noteq> read (url T_B2)"
    by (simp_all add: T_A2_def T_B2_def P_Observation_def ex_profile_fields ex_resource_fields)
  have h5: "\<not> falsy (resourceType T_A2) \<or>
            list_all (\<lambda>e. \<not> is_FshInstance e) (fishAll ex_tank (resolve ex_mf ''A2'') [])"
    by (simp add: T_A2_def ex_profile_fields)
  have h6: "addUrl ex_mf (T_A2\<lparr>sdType := Value ''Observation''\<rparr>) =
            Inr (T_A2\<lparr>sdType := Value ''Observation''\<rparr>)"
    by (simp add: addUrl_def T_A2_def ex_profile_fields)
  have h7: "tank_fishForMetadata ex_tank ''A2'' [] = Some T_A2"
    "tank_fishForMetadata ex_tank ''B2'' [] = Some T_B2"
    by (simp_all add: ex_tank_def)
  have h8: "pkg_fishForMetadata ex_pkg ''Observation'' [] = Some P_Observation"
    by (simp add: ex_pkg_def)
  have h9: "fhir_fishForMetadata ex_fhir ''Observation'' [] = Some F_Observation"
    by (simp add: ex_fhir_def)
  from sdType_of_the_end_of_the_chain [OF ex_mf_fields(3) ex_mf_fields(2) ex_mf_fields(1)
      h1 h2(1) h3(1) h3(2) h2(2) h3(3) h3(4) h2(3) h3(5) h4 h5, THEN conjunct1, of 0]
  have "fishForMetadata 0 ex_mf ''A2'' [] =
        Some (Inr (Some (T_A2\<lparr>sdType := Value ''Observation''\<rparr>)), [])"
    by (auto simp: h6)
  with r h3 h7 h8 h9 show ?thesis
    by simp
qed

lemma ex_findSdType_A3:
  "findSdType ex_mf T_A3 [] (fishables_of ex_mf) =
     Some (None, [\<lparr>message = ''Circular dependency detected on parent relationships: A3 < B3'',
                   location = Some here\<rparr>])"
proof -
  have r: "resolve ex_mf ''B3'' = ''B3''"
    by (simp add: ex_resolve)
  have h1: "firstResult (fishables_of ex_mf) (resolve ex_mf ''B3'') [] = Some (T_B3, Tank ex_tank)"
    unfolding r by (rule ex_firstResult_tank)
  have h3: "fhir_fishForMetadata ex_fhir ''B3'' [] = None"
    by (simp add: ex_fhir_def)
  have h5: "circular_message ex_mf [T_A3] T_B3 =
            ''Circular dependency detected on parent relationships: A3 < B3''"
    by (simp add: circular_message_def ex_mf_fields T_A3_def T_B3_def ex_profile_fields h3)
  have h6: "fish ex_tank ''B3'' [] = Some (FshEntity ''B3'' ''B3'' here)"
    by (simp add: ex_tank_def)
  have h7: "read (sdType T_A3) = None" "read (parent T_A3) = Some ''B3''"
    "read (url T_A3) = None" "read (url T_B3) = None"
    by (simp_all add: T_A3_def T_B3_def ex_profile_fields)
  have "findSdType_while ex_mf [] (fishables_of ex_mf) [T_A3] None (Some ''B3'') =
        Some (None, [\<lparr>message = circular_message ex_mf [T_A3] T_B3,
                      location = errorLocation (Tank ex_tank) (resolve ex_mf ''B3'')\<rparr>])"
    by (simp add: findSdType_while_round [OF h1] h7)
  then show ?thesis
    by (simp add: findSdType_def h7 h5 h6 r)
qed

text \<open>
  C4. The claim: for a definition \<open>A\<close> without \<open>sdType\<close> whose parent \<open>B\<close> has no
  \<open>sdType\<close> and whose parent \<open>C\<close> has one, \<open>fishForMetadata\<close> returns \<open>A\<close> with the
  \<open>sdType\<close> of \<open>C\<close>, each parent being resolved and looked up in package, tank and FHIR
  definitions, in this order. The code does not do so for the profiles \<open>A3\<close> and
  \<open>B3\<close> of the tank, which have no url: \<open>B3\<close> has the parent Observation, whose
  \<open>sdType\<close> is known, and nothing is circular, but line 152 compares the absent url of
  \<open>B3\<close> with the absent url of \<open>A3\<close>, finds them equal, logs a circular dependency
  and returns \<open>undefined\<close>. \<open>A3\<close> comes back without \<open>sdType\<close>.
\<close>

theorem C4_chain_without_urls_is_reported_circular:
  "firstResult (fishables_of ex_mf) (resolve ex_mf ''A3'') [] = Some (T_A3, Tank ex_tank) \<and>
   read (sdType T_A3) = None \<and> read (parent T_A3) = Some ''B3'' \<and>
   firstResult (fishables_of ex_mf) (resolve ex_mf ''B3'') [] = Some (T_B3, Tank ex_tank) \<and>
   read (sdType T_B3) = None \<and> read (parent T_B3) = Some ''Observation'' \<and>
   firstResult (fishables_of ex_mf) (resolve ex_mf ''Observation'') [] =
     Some (P_Observation, Pkg ex_pkg) \<and>
   read (sdType P_Observation) = Some ''Observation'' \<and>
   fishForMetadata 0 ex_mf ''A3'' [] =
     Some (Inr (Some (T_A3\<lparr>sdType := Undefined,
                           url := Value ''http://example.org/StructureDefinition/A3''\<rparr>)),
           [\<lparr>message = ''Circular dependency detected on parent relationships: A3 < B3'',
             location = Some here\<rparr>]) \<and>
   read (sdType (T_A3\<lparr>sdType := Undefined,
                     url := Value ''http://example.org/StructureDefinition/A3''\<rparr>)) \<noteq>
     Some ''Observation''"
proof -
  have r: "resolve ex_mf ''A3'' = ''A3''" "resolve ex_mf ''B3'' = ''B3''"
    "resolve ex_mf ''Observation'' = ''Observation''"
    by (simp_all add: ex_resolve)
  have h1: "fishForPredefinedResourceMetadata ex_fhir (resolve ex_mf ''A3'') [] = None"
    unfolding r by (simp add: ex_fast_none)
  have h2: "firstResult (fishables_of ex_mf) (resolve ex_mf ''A3'') [] = Some (T_A3, Tank ex_tank)"
    "firstResult (fishables_of ex_mf) (resolve ex_mf ''B3'') [] = Some (T_B3, Tank ex_tank)"
    "firstResult (fishables_of ex_mf) (resolve ex_mf ''Observation'') [] =
       Some (P_Observation, Pkg ex_pkg)"
    unfolding r by (rule ex_firstResult_tank)+
  have h3: "read (sdType T_A3) = None" "read (parent T_A3) = Some ''B3''"
    "read (sdType T_B3) = None" "read (parent T_B3) = Some ''Observation''"
    "read (sdType P_Observation) = Some ''Observation''"
    by (simp_all add: T_A3_def T_B3_def P_Observation_def ex_profile_fields ex_resource_fields)
  have h4: "addUrl ex_mf (T_A3\<lparr>sdType := Undefined\<rparr>) =
            Inr (T_A3\<lparr>sdType := Undefined,
                      url := Value ''http://example.org/StructureDefinition/A3''\<rparr>)"
    by (simp add: addUrl_def T_A3_def ex_profile_fields ex_mf_fields) (simp add: ex_pkg_def)
  have h5: "\<not> falsy (resourceType T_A3) \<or>
            list_all (\<lambda>e. \<not> is_FshInstance e) (fishAll ex_tank (resolve ex_mf ''A3'') [])"
    by (simp add: T_A3_def ex_profile_fields)
  have "fixMetadata 0 ex_mf T_A3 (resolve ex_mf ''A3'') [] (Tank ex_tank) (fishables_of ex_mf) =
        Some (Inr (T_A3\<lparr>sdType := Undefined,
                        url := Value ''http://example.org/StructureDefinition/A3''\<rparr>),
              [\<lparr>message = ''Circular dependency detected on parent relationships: A3 < B3'',
                location = Some here\<rparr>])"
    using fixMetadata_tank_plain [OF ex_findSdType_A3 h5, of 0] by (simp add: h4)
  from fishForMetadata_first [OF ex_mf_fields(1) h1 h2(1) this] h2 h3
  show ?thesis by simp
qed

lemma ex_circular_A1:
  "tank_fishForMetadata ex_tank ''A1'' [] = Some T_A1 \<and> read (parent T_A1) = Some ''B1'' \<and>
   tank_fishForMetadata ex_tank ''B1'' [] = Some T_B1 \<and> read (parent T_B1) = Some ''A1'' \<and>
   fishForMetadata 0 ex_mf ''A1'' [] =
     Some (Inr (Some (T_A1\<lparr>sdType := Undefined\<rparr>)),
           [\<lparr>message = ''Circular dependency detected on parent relationships: A1 < B1 < A1'',
             location = Some here\<rparr>]) \<and>
   (\<exists>rs. fishForMetadatas 0 ex_mf ''A1'' [] =
           Some (Inr rs,
                 [\<lparr>message = ''Circular dependency detected on parent relationships: A1 < B1 < A1'',
                   location = Some here\<rparr>]) \<and>
         T_A1\<lparr>sdType := Undefined\<rparr> \<in> set rs)"
proof -
  have r: "resolve ex_mf ''A1'' = ''A1''" "resolve ex_mf ''B1'' = ''B1''"
    by (simp_all add: ex_resolve)
  have h1: "fishForPredefinedResourceMetadata ex_fhir (resolve ex_mf ''A1'') [] = None"
    unfolding r by (simp add: ex_fast_none)
  have h2: "firstResult (fishables_of ex_mf) (resolve ex_mf ''A1'') [] = Some (T_A1, Tank ex_tank)"
    "firstResult (fishables_of ex_mf) (resolve ex_mf ''B1'') [] = Some (T_B1, Tank ex_tank)"
    unfolding r by (rule ex_firstResult_tank)+
  have h3: "read (sdType T_A1) = None" "read (parent T_A1) = Some ''B1''"
    "read (sdType T_B1) = None" "read (parent T_B1) = Some ''A1''"
    by (simp_all add: T_A1_def T_B1_def ex_profile_fields)
  have h4: "resolve ex_mf ''A1'' = resolve ex_mf ''A1''"
    by simp
  have h5: "\<not> falsy (resourceType T_A1) \<or>
            list_all (\<lambda>e. \<not> is_FshInstance e) (fishAll ex_tank (resolve ex_mf ''A1'') [])"
    by (simp add: T_A1_def ex_profile_fields)
  have h6: "addUrl ex_mf (T_A1\<lparr>sdType := Undefined\<rparr>) = Inr (T_A1\<lparr>sdType := Undefined\<rparr>)"
    by (simp add: addUrl_def T_A1_def ex_profile_fields)
  have h7: "read (url T_B1) \<noteq> read (url T_A1)"
    by (simp add: T_A1_def T_B1_def ex_profile_fields)
  have h8: "fhir_fishForMetadata ex_fhir ''A1'' [] = None"
    by (simp add: ex_fhir_def)
  have h9: "circular_message ex_mf [T_A1, T_B1] T_A1 =
            ''Circular dependency detected on parent relationships: A1 < B1 < A1''"
    by (simp add: circular_message_def ex_mf_fields T_A1_def T_B1_def ex_profile_fields h8)
  have h10: "fish ex_tank ''A1'' [] = Some (FshEntity ''A1'' ''A1'' here)"
    by (simp add: ex_tank_def)
  have h11: "tank_fishForMetadatas ex_tank (resolve ex_mf ''A1'') [] = [T_A1]"
    "tank_fishForMetadata ex_tank ''A1'' [] = Some T_A1"
    "tank_fishForMetadata ex_tank ''B1'' [] = Some T_B1"
    unfolding r by (simp_all add: ex_tank_def)
  from circular_parents_are_reported_once [OF ex_mf_fields(3) ex_mf_fields(2) ex_mf_fields(1)
      h1 h2(1) h3(1) h3(2) h2(2) h3(3) h3(4) h4 h5, of 0]
  obtain x d where
    "fishForMetadata 0 ex_mf ''A1'' [] = Some (Inr (Some x), [d])"
    "addUrl ex_mf (T_A1\<lparr>sdType := Undefined\<rparr>) = Inr x"
    "d = \<lparr>message = circular_message ex_mf [T_A1, T_B1] T_A1,
          location = errorLocation (Tank ex_tank) (resolve ex_mf ''A1'')\<rparr>"
    "\<exists>rs. fishForMetadatas 0 ex_mf ''A1'' [] = Some (Inr rs, [d]) \<and> x \<in> set rs"
    using h7 h11(1) by auto
  with h3 h6 h9 h10 h11 r show ?thesis
    by simp
qed

subsection \<open>Runs that miss what is claimed\<close>

lemma ex_mf_no_pkg_fields:
  "fhir ex_mf_no_pkg = Some ex_fhir" "tank ex_mf_no_pkg = Some ex_tank" "pkg ex_mf_no_pkg = None"
  by (simp_all add: ex_mf_no_pkg_def new_MasterFisher_def)

lemma ex_resolve_no_pkg: "i \<noteq> ''OBS'' \<Longrightarrow> resolve ex_mf_no_pkg i = i"
  by (simp add: resolve_def ex_mf_no_pkg_fields) (simp add: ex_tank_def)

lemma ex_fishables_no_pkg: "fishables_of ex_mf_no_pkg = [Tank ex_tank, Fhir ex_fhir]"
  by (simp add: fishables_of_def ex_mf_no_pkg_fields)

lemma ex_firstResult_no_pkg:
  "firstResult (fishables_of ex_mf_no_pkg) ''A4'' [] = Some (T_A4, Tank ex_tank)"
  "firstResult (fishables_of ex_mf_no_pkg) ''B4'' [] = Some (T_B4, Tank ex_tank)"
  unfolding ex_fishables_no_pkg by (simp_all add: ex_tank_def)

lemma ex_findSdType_A4:
  "findSdType ex_mf_no_pkg T_A4 [] (fishables_of ex_mf_no_pkg) =
     Some (None, [\<lparr>message = ''Circular dependency detected on parent relationships: A4 < B4 < A4'',
                   location = Some here\<rparr>])"
proof -
  have r: "resolve ex_mf_no_pkg ''B4'' = ''B4''" "resolve ex_mf_no_pkg ''A4'' = ''A4''"
    by (simp_all add: ex_resolve_no_pkg)
  have h1: "firstResult (fishables_of ex_mf_no_pkg) (resolve ex_mf_no_pkg ''B4'') [] =
            Some (T_B4, Tank ex_tank)"
    and h2: "firstResult (fishables_of ex_mf_no_pkg) (resolve ex_mf_no_pkg ''A4'') [] =
            Some (T_A4, Tank ex_tank)"
    unfolding r by (rule ex_firstResult_no_pkg)+
  have h3: "fhir_fishForMetadata ex_fhir ''A4'' [] = None"
    by (simp add: ex_fhir_def)
  have h5: "circular_message ex_mf_no_pkg [T_A4, T_B4] T_A4 =
            ''Circular dependency detected on parent relationships: A4 < B4 < A4''"
    by (simp add: circular_message_def ex_mf_no_pkg_fields T_A4_def T_B4_def ex_profile_fields h3)
  have h6: "fish ex_tank ''A4'' [] = Some (FshEntity ''A4'' ''A4'' here)"
    by (simp add: ex_tank_def)
  have h7: "read (sdType T_A4) = None" "read (parent T_A4) = Some ''B4''"
    "read (sdType T_B4) = None" "read (parent T_B4) = Some ''A4''"
    "read (url T_A4) = None" "read (url T_B4) = Some ''http://example.org/B4''"
    by (simp_all add: T_A4_def T_B4_def ex_profile_fields)
  have "findSdType_while ex_mf_no_pkg [] (fishables_of ex_mf_no_pkg) [T_A4, T_B4] None (Some ''A4'') =
        Some (None, [\<lparr>message = circular_message ex_mf_no_pkg [T_A4, T_B4] T_A4,
                      location = errorLocation (Tank ex_tank) (resolve ex_mf_no_pkg ''A4'')\<rparr>])"
    by (simp add: findSdType_while_round [OF h2] h7)
  then have "findSdType_while ex_mf_no_pkg [] (fishables_of ex_mf_no_pkg) [T_A4] None (Some ''B4'') =
        Some (None, [\<lparr>message = circular_message ex_mf_no_pkg [T_A4, T_B4] T_A4,
                      location = errorLocation (Tank ex_tank) (resolve ex_mf_no_pkg ''A4'')\<rparr>])"
    by (simp add: findSdType_while_round [OF h1] h7)
  then show ?thesis
    by (simp add: findSdType_def h7 h5 h6 r)
qed

text \<open>
  C3. The claim: for parents that form a cycle, \<open>fishForMetadata\<close> returns the record
  with \<open>sdType\<close> unset and one error is logged that names the chain; no exception is
  raised, and \<open>fishForMetadatas\<close> goes on and returns the record. The package is an
  optional argument of the constructor, and lines 46 and 75 allow for its absence, but
  line 135 reads \<open>this.pkg.config\<close> as it is. In the MasterFisher without package, the
  profile \<open>A4\<close> of the tank has no url and the parent \<open>B4\<close>, whose parent is \<open>A4\<close>:
  the error is logged, with the chain \<open>A4 < B4 < A4\<close>, and then both operations throw a
  \<open>TypeError\<close> and return no record.
\<close>

theorem C3_without_package_the_cycle_ends_in_a_TypeError:
  "pkg ex_mf_no_pkg = None \<and>
   tank_fishForMetadata ex_tank ''A4'' [] = Some T_A4 \<and> read (parent T_A4) = Some ''B4'' \<and>
   tank_fishForMetadata ex_tank ''B4'' [] = Some T_B4 \<and> read (parent T_B4) = Some ''A4'' \<and>
   tank_fishForMetadatas ex_tank ''A4'' [] = [T_A4] \<and>
   fishForMetadata 0 ex_mf_no_pkg ''A4'' [] =
     Some (Inl TypeError,
           [\<lparr>message = ''Circular dependency detected on parent relationships: A4 < B4 < A4'',
             location = Some here\<rparr>]) \<and>
   fishForMetadatas 0 ex_mf_no_pkg ''A4'' [] =
     Some (Inl TypeError,
           [\<lparr>message = ''Circular dependency detected on parent relationships: A4 < B4 < A4'',
             location = Some here\<rparr>])"
proof -
  have r: "resolve ex_mf_no_pkg ''A4'' = ''A4''"
    by (simp add: ex_resolve_no_pkg)
  have h1: "fishForPredefinedResourceMetadata ex_fhir ''A4'' [] = None"
    "fishForPredefinedResourceMetadatas ex_fhir ''A4'' [] = []"
    "fhir_fishForMetadatas ex_fhir ''A4'' [] = []"
    by (simp_all add: ex_fhir_def)
  have h2: "tank_fishForMetadata ex_tank ''A4'' [] = Some T_A4"
    "tank_fishForMetadata ex_tank ''B4'' [] = Some T_B4"
    "tank_fishForMetadatas ex_tank ''A4'' [] = [T_A4]"
    by (simp_all add: ex_tank_def)
  have h3: "read (parent T_A4) = Some ''B4''" "read (parent T_B4) = Some ''A4''"
    by (simp_all add: T_A4_def T_B4_def ex_profile_fields)
  have h4: "\<not> falsy (resourceType T_A4) \<or>
            list_all (\<lambda>e. \<not> is_FshInstance e) (fishAll ex_tank ''A4'' [])"
    by (simp add: T_A4_def ex_profile_fields)
  have h5: "addUrl ex_mf_no_pkg (T_A4\<lparr>sdType := Undefined\<rparr>) = Inl TypeError"
    by (simp add: addUrl_def T_A4_def ex_profile_fields ex_mf_no_pkg_fields)
  have fixed: "fixMetadata 0 ex_mf_no_pkg T_A4 ''A4'' [] (Tank ex_tank) (fishables_of ex_mf_no_pkg) =
        Some (Inl TypeError,
              [\<lparr>message = ''Circular dependency detected on parent relationships: A4 < B4 < A4'',
                location = Some here\<rparr>])"
    using fixMetadata_tank_plain [OF ex_findSdType_A4 h4, of 0] by (simp add: h5)
  have single: "fishForMetadata 0 ex_mf_no_pkg ''A4'' [] =
     Some (Inl TypeError,
           [\<lparr>message = ''Circular dependency detected on parent relationships: A4 < B4 < A4'',
             location = Some here\<rparr>])"
    by (simp add: fishForMetadata.simps Let_def r ex_mf_no_pkg_fields h1 ex_firstResult_no_pkg fixed)
  have "gather 0 ex_mf_no_pkg ''A4'' [] (fishables_of ex_mf_no_pkg) [Tank ex_tank, Fhir ex_fhir] =
     Some (Inl TypeError,
           [\<lparr>message = ''Circular dependency detected on parent relationships: A4 < B4 < A4'',
             location = Some here\<rparr>])"
    by (simp add: h2 fixed)
  then have multi: "fishForMetadatas 0 ex_mf_no_pkg ''A4'' [] =
     Some (Inl TypeError,
           [\<lparr>message = ''Circular dependency detected on parent relationships: A4 < B4 < A4'',
             location = Some here\<rparr>])"
    by (simp add: fishForMetadatas_def Let_def r ex_mf_no_pkg_fields ex_fishables_no_pkg)
  from single multi h2 h3 ex_mf_no_pkg_fields show ?thesis
    by simp
qed

text \<open>
  C6. The claim: \<open>fishForMetadatas\<close> never returns two records that are equal in every
  field. The value set \<open>VS\<close> has the same record in the package and in the tank, without
  the key \<open>sdType\<close>. Line 120 assigns \<open>undefined\<close> to \<open>sdType\<close> in the copy of the
  tank, \<open>isEqual\<close> tells a key with the value \<open>undefined\<close> from a missing key, and
  both copies are returned, although every field of the one reads as the field of the
  other: the duplicates of package and tank that line 106 means to drop are kept.
\<close>

theorem C6_record_of_package_and_tank_is_returned_twice:
  "pkg_fishForMetadatas ex_pkg ''VS'' [] = [VS] \<and>
   tank_fishForMetadatas ex_tank ''VS'' [] = [VS] \<and>
   fishForMetadatas 0 ex_mf ''VS'' [] = Some (Inr [VS, VS\<lparr>sdType := Undefined\<rparr>], []) \<and>
   duplicates VS (VS\<lparr>sdType := Undefined\<rparr>) \<and>
   \<not> isEqual VS (VS\<lparr>sdType := Undefined\<rparr>)"
proof -
  have r: "resolve ex_mf ''VS'' = ''VS''"
    by (simp add: ex_resolve)
  have h1: "fishForPredefinedResourceMetadatas ex_fhir ''VS'' [] = []"
    "fhir_fishForMetadatas ex_fhir ''VS'' [] = []"
    by (simp_all add: ex_fhir_def)
  have h2: "pkg_fishForMetadatas ex_pkg ''VS'' [] = [VS]"
    by (simp add: ex_pkg_def)
  have h3: "tank_fishForMetadatas ex_tank ''VS'' [] = [VS]"
    by (simp add: ex_tank_def)
  have f: "sdType VS = Missing" "read (sdType VS) = None" "read (parent VS) = None"
    "\<not> falsy (resourceType VS)" "\<not> falsy (url VS)"
    by (simp_all add: VS_def blank_def)
  have h4: "addUrl ex_mf VS = Inr VS" "addUrl ex_mf (VS\<lparr>sdType := Undefined\<rparr>) =
            Inr (VS\<lparr>sdType := Undefined\<rparr>)"
    using f by (simp_all add: addUrl_def)
  have walk: "findSdType ex_mf VS [] (fishables_of ex_mf) = Some (None, [])"
    using f by (simp add: ex_findSdType_no_parent)
  have h5: "fixMetadata 0 ex_mf VS ''VS'' [] (Tank ex_tank) (fishables_of ex_mf) =
            Some (Inr (VS\<lparr>sdType := Undefined\<rparr>), [])"
    using fixMetadata_tank_plain [OF walk, of ex_tank "''VS''" 0] f by (simp add: h4)
  have h6: "gather 0 ex_mf ''VS'' [] (fishables_of ex_mf) [Pkg ex_pkg, Tank ex_tank, Fhir ex_fhir] =
            Some (Inr [VS, VS\<lparr>sdType := Undefined\<rparr>], [])"
    by (simp add: h1 h2 h3 h4 h5 fixMetadata_not_tank)
  have h7: "VS \<noteq> VS\<lparr>sdType := Undefined\<rparr>"
    by (simp add: VS_def blank_def)
  have h8: "fishForMetadatas 0 ex_mf ''VS'' [] = Some (Inr [VS, VS\<lparr>sdType := Undefined\<rparr>], [])"
    using h7 h6
    by (simp add: fishForMetadatas_def Let_def r ex_mf_fields h1 ex_fishables uniqWith_isEqual)
  have h9: "duplicates VS (VS\<lparr>sdType := Undefined\<rparr>)"
    using f by (simp add: duplicates_def)
  from h2 h3 h7 h8 h9 show ?thesis
    by (simp add: isEqual_def)
qed

end
